theory Spec2Isabelle
  imports Complex_Main
begin

section \<open>Python values and built-ins used by the calculator\<close>

text \<open>
  The repository is three Python scripts. The calculator
  (\<^verbatim>\<open>calculate_reimbursement.py\<close>) classifies a trip by an \<^verbatim>\<open>if\<close>/\<^verbatim>\<open>elif\<close> chain,
  evaluates one linear formula and rounds; the coefficient deriver
  (\<^verbatim>\<open>derive_coefficients.py\<close>) classifies records with the function \<^verbatim>\<open>classify_trip\<close>.

  Numbers. A Python \<^verbatim>\<open>float\<close> is a finite number, an infinity or NaN; a finite float is
  carried as the real number it denotes. The arithmetic on floats is modelled twice.
  In the first sections it is exact: the sum or product of two finite floats is their
  real sum or product, nothing is rounded and nothing overflows, and a decimal literal
  such as \<^verbatim>\<open>87.111841\<close> denotes that decimal fraction. The section on the arithmetic of
  the machine takes the operations as a parameter, and gives the 64-bit arithmetic of
  a run of the script: its rounding, its overflow to an infinity, and the
  \<^verbatim>\<open>OverflowError\<close> of an integer too large for a float. The two infinities and NaN
  are kept throughout, with the arithmetic and the comparisons Python gives them,
  because \<^verbatim>\<open>float(s)\<close> returns them for strings such as \<^verbatim>\<open>inf\<close> and \<^verbatim>\<open>nan\<close>. The sign of a
  zero is not modelled. Python's \<^verbatim>\<open>int\<close> is \<^typ>\<open>int\<close>.

  Exceptions are values: a function that can raise returns \<open>py_error + 'a\<close>.
\<close>

datatype py_error = ZeroDivisionError | ValueError | OverflowError

datatype pyfloat = Finite real | PosInf | NegInf | NaN

text \<open>
  The operators \<^verbatim>\<open>+\<close>, \<^verbatim>\<open>*\<close>, \<^verbatim>\<open><=\<close> and \<^verbatim>\<open><\<close> on floats. A sum or product with NaN is NaN,
  as are \<open>inf - inf\<close> and \<open>0 * inf\<close>; every comparison with NaN is false.
\<close>

instantiation pyfloat :: "{plus, times, ord}"
begin

fun plus_pyfloat :: "pyfloat \<Rightarrow> pyfloat \<Rightarrow> pyfloat" where
  "plus_pyfloat (Finite x) (Finite y) = Finite (x + y)"
| "plus_pyfloat NaN y = NaN"
| "plus_pyfloat x NaN = NaN"
| "plus_pyfloat PosInf NegInf = NaN"
| "plus_pyfloat NegInf PosInf = NaN"
| "plus_pyfloat PosInf y = PosInf"
| "plus_pyfloat x PosInf = PosInf"
| "plus_pyfloat NegInf y = NegInf"
| "plus_pyfloat x NegInf = NegInf"

fun times_pyfloat :: "pyfloat \<Rightarrow> pyfloat \<Rightarrow> pyfloat" where
  "times_pyfloat (Finite x) (Finite y) = Finite (x * y)"
| "times_pyfloat NaN y = NaN"
| "times_pyfloat x NaN = NaN"
| "times_pyfloat (Finite x) PosInf = (if x = 0 then NaN else if 0 < x then PosInf else NegInf)"
| "times_pyfloat (Finite x) NegInf = (if x = 0 then NaN else if 0 < x then NegInf else PosInf)"
| "times_pyfloat PosInf (Finite y) = (if y = 0 then NaN else if 0 < y then PosInf else NegInf)"
| "times_pyfloat NegInf (Finite y) = (if y = 0 then NaN else if 0 < y then NegInf else PosInf)"
| "times_pyfloat PosInf PosInf = PosInf"
| "times_pyfloat NegInf NegInf = PosInf"
| "times_pyfloat PosInf NegInf = NegInf"
| "times_pyfloat NegInf PosInf = NegInf"

fun less_eq_pyfloat :: "pyfloat \<Rightarrow> pyfloat \<Rightarrow> bool" where
  "less_eq_pyfloat (Finite x) (Finite y) = (x \<le> y)"
| "less_eq_pyfloat NaN y = False"
| "less_eq_pyfloat x NaN = False"
| "less_eq_pyfloat NegInf y = True"
| "less_eq_pyfloat x PosInf = True"
| "less_eq_pyfloat PosInf y = False"
| "less_eq_pyfloat x NegInf = False"

fun less_pyfloat :: "pyfloat \<Rightarrow> pyfloat \<Rightarrow> bool" where
  "less_pyfloat (Finite x) (Finite y) = (x < y)"
| "less_pyfloat NaN y = False"
| "less_pyfloat x NaN = False"
| "less_pyfloat PosInf y = False"
| "less_pyfloat x NegInf = False"
| "less_pyfloat NegInf y = True"
| "less_pyfloat x PosInf = True"

instance ..

end

text \<open>
  The operator \<^verbatim>\<open>/\<close>: a zero divisor raises, whatever the dividend is; otherwise the
  quotient is that of the floats.
\<close>

fun float_div :: "pyfloat \<Rightarrow> pyfloat \<Rightarrow> pyfloat" where
  "float_div (Finite x) (Finite y) = Finite (x / y)"
| "float_div NaN y = NaN"
| "float_div x NaN = NaN"
| "float_div (Finite x) y = Finite 0"
| "float_div PosInf (Finite y) = (if 0 < y then PosInf else NegInf)"
| "float_div NegInf (Finite y) = (if 0 < y then NegInf else PosInf)"
| "float_div x y = NaN"

definition py_truediv :: "pyfloat \<Rightarrow> pyfloat \<Rightarrow> py_error + pyfloat" where
  "py_truediv a b = (if b = Finite 0 then Inl ZeroDivisionError else Inr (float_div a b))"

text \<open>
  The built-in \<^verbatim>\<open>round(x, ndigits)\<close>: on a finite number the closest multiple of
  \<open>10 ^ -ndigits\<close>, the even one of two equally close multiples; an infinity and NaN
  round to themselves. Python decides on the exact binary value of the float it is
  given, and returns the float closest to the multiple. In the exact arithmetic of the
  first sections \<open>py_round\<close> is the whole of \<^verbatim>\<open>round\<close>, applied to the exact value of the
  formula: where that value is a half cent, the result differs by a cent from a run of
  the script. In the arithmetic of the machine \<open>py_round\<close> is applied to the exact
  value of the float, and its result is rounded to a float.
\<close>

definition round_half_even :: "real \<Rightarrow> int" where
  "round_half_even x =
     (let f = \<lfloor>x\<rfloor>; d = x - of_int f
      in if d < 1 / 2 then f else if 1 / 2 < d then f + 1 else if even f then f else f + 1)"

fun py_round :: "pyfloat \<Rightarrow> nat \<Rightarrow> pyfloat" where
  "py_round (Finite x) ndigits = Finite (of_int (round_half_even (x * 10 ^ ndigits)) / 10 ^ ndigits)"
| "py_round x ndigits = x"

text \<open>
  The format specification \<^verbatim>\<open>.2f\<close> of an f-string. A finite number prints as an
  optional minus sign, the decimal digits of the integer part, a point, and two digits;
  the others print as \<^verbatim>\<open>inf\<close>, \<^verbatim>\<open>-inf\<close> and \<^verbatim>\<open>nan\<close>.
\<close>

definition digit_char :: "nat \<Rightarrow> char" where
  "digit_char n = ''0123456789'' ! (n mod 10)"

function str_nat :: "nat \<Rightarrow> string" where
  "str_nat n = (if n < 10 then [digit_char n] else str_nat (n div 10) @ [digit_char (n mod 10)])"
  by pat_completeness auto
termination
  by (relation "measure (\<lambda>n. n)") auto

fun format_2f :: "pyfloat \<Rightarrow> string" where
  "format_2f (Finite x) =
     (let n = nat (round_half_even (\<bar>x\<bar> * 100))
      in (if x < 0 then ''-'' else '''') @ str_nat (n div 100) @ ''.'' @
         [digit_char (n mod 100 div 10), digit_char (n mod 10)])"
| "format_2f PosInf = ''inf''"
| "format_2f NegInf = ''-inf''"
| "format_2f NaN = ''nan''"

text \<open>A float is finite when it is neither an infinity nor NaN.\<close>

fun is_finite :: "pyfloat \<Rightarrow> bool" where
  "is_finite (Finite x) = True"
| "is_finite x = False"

text \<open>
  What "exactly two decimal places" means for a printed number: after an optional minus
  sign, at least one digit, a point, and two digits, nothing else.
\<close>

definition is_digit :: "char \<Rightarrow> bool" where
  "is_digit c = (c \<in> set ''0123456789'')"

fun two_decimals_rev :: "string \<Rightarrow> bool" where
  "two_decimals_rev (b # a # p # ip) =
     (is_digit b \<and> is_digit a \<and> p = CHR ''.'' \<and> ip \<noteq> [] \<and> list_all is_digit ip)"
| "two_decimals_rev _ = False"

definition two_decimal_places :: "string \<Rightarrow> bool" where
  "two_decimal_places s =
     two_decimals_rev (rev (if s \<noteq> [] \<and> hd s = CHR ''-'' then tl s else s))"

section \<open>The calculator: \<^verbatim>\<open>calculate_reimbursement.py\<close>\<close>

text \<open>
  The four arms of the \<^verbatim>\<open>if\<close>/\<^verbatim>\<open>elif\<close>/\<^verbatim>\<open>else\<close> chain of \<^verbatim>\<open>calculate_reimbursement\<close>,
  in the order of the source: cluster 0, cluster 1, cluster 2, and the \<^verbatim>\<open>else\<close> arm.
\<close>

datatype branch = LongHighReceipts | ShortLowActivity | MidHighMileage | Default

text \<open>
  Lines 104 to 136 of the function: the division, then the chain that assigns the local
  variable \<^verbatim>\<open>reimbursement\<close>. The model returns that variable together with the arm
  that assigned it; the arm is a ghost value, the source does not return it.
\<close>

definition calculate_reimbursement_body :: "pyfloat \<Rightarrow> pyfloat \<Rightarrow> pyfloat \<Rightarrow> py_error + branch \<times> pyfloat" where
  "calculate_reimbursement_body trip_duration_days miles_traveled total_receipts_amount =
     (case py_truediv total_receipts_amount trip_duration_days of
        Inl e \<Rightarrow> Inl e
      | Inr receipts_per_day \<Rightarrow>
          if Finite 5 \<le> trip_duration_days \<and> trip_duration_days \<le> Finite 12 \<and>
             receipts_per_day \<ge> Finite 100 then
            Inr (LongHighReceipts,
                 Finite 87.111841 * trip_duration_days +
                 Finite 0.673030 * miles_traveled +
                 Finite 0.285504 * total_receipts_amount)
          else if trip_duration_days \<le> Finite 6 \<and> receipts_per_day < Finite 100 then
            Inr (ShortLowActivity,
                 Finite 94.201797 * trip_duration_days +
                 Finite 0.462207 * miles_traveled +
                 Finite 0.253290 * total_receipts_amount)
          else if trip_duration_days \<le> Finite 9 \<and> miles_traveled \<ge> Finite 400 then
            Inr (MidHighMileage,
                 Finite 73.582926 * trip_duration_days +
                 Finite 0.506600 * miles_traveled +
                 Finite 0.462858 * total_receipts_amount)
          else
            Inr (Default,
                 Finite 94.201797 * trip_duration_days +
                 Finite 0.462207 * miles_traveled +
                 Finite 0.253290 * total_receipts_amount))"

text \<open>The whole function: the body, then \<^verbatim>\<open>return round(reimbursement, 2)\<close>.\<close>

definition calculate_reimbursement :: "pyfloat \<Rightarrow> pyfloat \<Rightarrow> pyfloat \<Rightarrow> py_error + pyfloat" where
  "calculate_reimbursement trip_duration_days miles_traveled total_receipts_amount =
     (case calculate_reimbursement_body trip_duration_days miles_traveled total_receipts_amount of
        Inl e \<Rightarrow> Inl e
      | Inr (taken, reimbursement) \<Rightarrow> Inr (py_round reimbursement 2))"

subsection \<open>The command line: \<^verbatim>\<open>main\<close>\<close>

text \<open>
  A run of the script ends by leaving with an exit code, having written to the two
  streams, or by an exception nothing catches. The run also records, as a ghost value,
  the arguments of every call of \<^verbatim>\<open>calculate_reimbursement\<close> it made.
\<close>

datatype ending = Exited (exit_code: nat) (stdout: string) (stderr: string) | Uncaught py_error

record run =
  ending :: ending
  invoked :: "(pyfloat \<times> pyfloat \<times> pyfloat) list"

definition newline :: string where
  "newline = [CHR 0x0A]"

definition usage_message :: string where
  "usage_message = ''Usage: python3 calculate_reimbursement.py <days> <miles> <receipts>'' @ newline"

definition range_message :: string where
  "range_message = ''Error: All inputs must be non-negative, and days must be positive'' @ newline"

definition format_message :: string where
  "format_message = ''Error: Invalid input format'' @ newline"

text \<open>
  The constructors \<^verbatim>\<open>int(s)\<close> and \<^verbatim>\<open>float(s)\<close> are parameters of the model: \<open>None\<close> is
  the \<^verbatim>\<open>ValueError\<close> of a string that does not parse. \<open>argv\<close> is \<^verbatim>\<open>sys.argv\<close>, the
  script's name first. \<^verbatim>\<open>sys.exit(1)\<close> raises \<^verbatim>\<open>SystemExit\<close>, which the handler for
  \<^verbatim>\<open>ValueError\<close> does not catch; a \<^verbatim>\<open>ValueError\<close> anywhere in the \<^verbatim>\<open>try\<close> block is
  caught, any other exception is not.
\<close>

definition main :: "(string \<Rightarrow> int option) \<Rightarrow> (string \<Rightarrow> pyfloat option) \<Rightarrow> string list \<Rightarrow> run" where
  "main py_int py_float argv =
     (if length argv \<noteq> 4 then
        \<lparr>ending = Exited 1 [] usage_message, invoked = []\<rparr>
      else
        case py_int (argv ! 1) of
          None \<Rightarrow> \<lparr>ending = Exited 1 [] format_message, invoked = []\<rparr>
        | Some days \<Rightarrow>
        case py_float (argv ! 2) of
          None \<Rightarrow> \<lparr>ending = Exited 1 [] format_message, invoked = []\<rparr>
        | Some miles \<Rightarrow>
        case py_float (argv ! 3) of
          None \<Rightarrow> \<lparr>ending = Exited 1 [] format_message, invoked = []\<rparr>
        | Some receipts \<Rightarrow>
            if days < 1 \<or> miles < Finite 0 \<or> receipts < Finite 0 then
              \<lparr>ending = Exited 1 [] range_message, invoked = []\<rparr>
            else
              case calculate_reimbursement (Finite (of_int days)) miles receipts of
                Inl ValueError \<Rightarrow>
                  \<lparr>ending = Exited 1 [] format_message,
                   invoked = [(Finite (of_int days), miles, receipts)]\<rparr>
              | Inl e \<Rightarrow>
                  \<lparr>ending = Uncaught e, invoked = [(Finite (of_int days), miles, receipts)]\<rparr>
              | Inr result \<Rightarrow>
                  \<lparr>ending = Exited 0 (format_2f result @ newline) [],
                   invoked = [(Finite (of_int days), miles, receipts)]\<rparr>)"

section \<open>The calculator in the arithmetic of the machine\<close>

text \<open>
  The definitions above compute with exact real numbers. A run of the script computes
  with 64-bit floats: every literal, sum, product and quotient is rounded to a float, a
  large one becomes an infinity, \<^verbatim>\<open>round\<close> acts on the float it is given, and an
  integer too large for a float raises \<^verbatim>\<open>OverflowError\<close> when the script converts it.
  None of this arithmetic is code of the repository: it is Python's. The definitions
  of this section take it as a parameter, a record of the operations the script uses,
  so that what is proved for every such record holds of a run whatever the rounding
  of its arithmetic is. The comparisons are not part of the record: Python compares
  floats, and a float with an integer, exactly.
\<close>

record float_arithmetic =
  float_lit :: "real \<Rightarrow> pyfloat"
  float_add :: "pyfloat \<Rightarrow> pyfloat \<Rightarrow> pyfloat"
  float_mul :: "pyfloat \<Rightarrow> pyfloat \<Rightarrow> pyfloat"
  float_quot :: "pyfloat \<Rightarrow> pyfloat \<Rightarrow> pyfloat"
  float_round :: "pyfloat \<Rightarrow> nat \<Rightarrow> pyfloat"
  float_of_int :: "int \<Rightarrow> pyfloat option"

text \<open>
  \<open>float_lit A c\<close> is the float a decimal literal \<open>c\<close> of the source denotes,
  \<open>float_quot A a b\<close> the quotient by a divisor that is not zero, \<open>float_round A x n\<close>
  the built-in \<^verbatim>\<open>round(x, n)\<close>, and \<open>float_of_int A n\<close> the float of the integer \<open>n\<close>,
  \<open>None\<close> when Python raises \<^verbatim>\<open>OverflowError\<close>.

  The exact arithmetic of the first sections is one such record.
\<close>

definition exact_arithmetic :: float_arithmetic where
  "exact_arithmetic =
     \<lparr>float_lit = Finite, float_add = (+), float_mul = (*), float_quot = float_div,
      float_round = py_round, float_of_int = (\<lambda>n. Some (Finite (of_int n)))\<rparr>"

text \<open>
  The 64-bit floats of IEEE 754, which \<^verbatim>\<open>float\<close> is in CPython. \<open>binary64 x\<close> is the
  float nearest to the real number \<open>x\<close>, the one with the even significand of two
  equally near. With \<open>e\<close> the binary exponent of \<open>x\<close>, and -1022 for the numbers
  below \<open>2 ^ -1022\<close>, the floats around \<open>x\<close> are the multiples of \<open>2 ^ (e - 52)\<close>. A
  number that rounds to \<open>2 ^ 1024\<close> or beyond has no finite float: an operation of the
  machine gives the infinity of its sign.
\<close>

definition binary64 :: "real \<Rightarrow> pyfloat" where
  "binary64 x =
     (if x = 0 then Finite 0
      else
        let e = max \<lfloor>log 2 \<bar>x\<bar>\<rfloor> (- 1022);
            ulp = 2 powr (of_int e - 52);
            y = of_int (round_half_even (x / ulp)) * ulp
        in if 2 ^ 1024 \<le> \<bar>y\<bar> then (if 0 < x then PosInf else NegInf) else Finite y)"

text \<open>The result of an operation of the machine: the exact result, rounded to a float.\<close>

fun rounded :: "pyfloat \<Rightarrow> pyfloat" where
  "rounded (Finite x) = binary64 x"
| "rounded x = x"

text \<open>
  The arithmetic of a run. A literal denotes the nearest float. A sum, a product and a
  quotient are the exact ones of the two floats, rounded. \<^verbatim>\<open>round(x, n)\<close> is the decimal
  rounding of the exact value of \<open>x\<close>, rounded to a float. An integer converts to the
  nearest float, and raises \<^verbatim>\<open>OverflowError\<close> when that is no finite float.
\<close>

definition binary64_arithmetic :: float_arithmetic where
  "binary64_arithmetic =
     \<lparr>float_lit = binary64,
      float_add = (\<lambda>x y. rounded (x + y)),
      float_mul = (\<lambda>x y. rounded (x * y)),
      float_quot = (\<lambda>x y. rounded (float_div x y)),
      float_round = (\<lambda>x n. rounded (py_round x n)),
      float_of_int = (\<lambda>n. case binary64 (of_int n) of Finite x \<Rightarrow> Some (Finite x) | _ \<Rightarrow> None)\<rparr>"

definition truediv_in :: "float_arithmetic \<Rightarrow> pyfloat \<Rightarrow> pyfloat \<Rightarrow> py_error + pyfloat" where
  "truediv_in A a b = (if b = Finite 0 then Inl ZeroDivisionError else Inr (float_quot A a b))"

text \<open>
  The expression \<^verbatim>\<open>a * trip_duration_days + b * miles_traveled + c * total_receipts_amount\<close>
  of the source, with its three literals: three products, added from the left.
\<close>

definition linear_in ::
  "float_arithmetic \<Rightarrow> real \<Rightarrow> real \<Rightarrow> real \<Rightarrow> pyfloat \<Rightarrow> pyfloat \<Rightarrow> pyfloat \<Rightarrow> pyfloat" where
  "linear_in A a b c trip_duration_days miles_traveled total_receipts_amount =
     float_add A
       (float_add A (float_mul A (float_lit A a) trip_duration_days)
                    (float_mul A (float_lit A b) miles_traveled))
       (float_mul A (float_lit A c) total_receipts_amount)"

text \<open>Lines 104 to 136 of \<^verbatim>\<open>calculate_reimbursement\<close> again, and the whole function.\<close>

definition calculate_reimbursement_body_in ::
  "float_arithmetic \<Rightarrow> pyfloat \<Rightarrow> pyfloat \<Rightarrow> pyfloat \<Rightarrow> py_error + branch \<times> pyfloat" where
  "calculate_reimbursement_body_in A trip_duration_days miles_traveled total_receipts_amount =
     (case truediv_in A total_receipts_amount trip_duration_days of
        Inl e \<Rightarrow> Inl e
      | Inr receipts_per_day \<Rightarrow>
          if Finite 5 \<le> trip_duration_days \<and> trip_duration_days \<le> Finite 12 \<and>
             receipts_per_day \<ge> Finite 100 then
            Inr (LongHighReceipts,
                 linear_in A 87.111841 0.673030 0.285504
                   trip_duration_days miles_traveled total_receipts_amount)
          else if trip_duration_days \<le> Finite 6 \<and> receipts_per_day < Finite 100 then
            Inr (ShortLowActivity,
                 linear_in A 94.201797 0.462207 0.253290
                   trip_duration_days miles_traveled total_receipts_amount)
          else if trip_duration_days \<le> Finite 9 \<and> miles_traveled \<ge> Finite 400 then
            Inr (MidHighMileage,
                 linear_in A 73.582926 0.506600 0.462858
                   trip_duration_days miles_traveled total_receipts_amount)
          else
            Inr (Default,
                 linear_in A 94.201797 0.462207 0.253290
                   trip_duration_days miles_traveled total_receipts_amount))"

definition calculate_reimbursement_in ::
  "float_arithmetic \<Rightarrow> pyfloat \<Rightarrow> pyfloat \<Rightarrow> pyfloat \<Rightarrow> py_error + pyfloat" where
  "calculate_reimbursement_in A trip_duration_days miles_traveled total_receipts_amount =
     (case calculate_reimbursement_body_in A trip_duration_days miles_traveled
             total_receipts_amount of
        Inl e \<Rightarrow> Inl e
      | Inr (taken, reimbursement) \<Rightarrow> Inr (float_round A reimbursement 2))"

text \<open>
  \<open>main\<close> calls the function with an integer for the days. Python converts the integer
  to a float where the function first computes with it, in the division of line 104,
  and an integer too large raises \<^verbatim>\<open>OverflowError\<close> there; the model converts it at the
  call. The handler of \<open>main\<close> catches \<^verbatim>\<open>ValueError\<close> only, so the error is not caught.
\<close>

definition calculate_reimbursement_of_int ::
  "float_arithmetic \<Rightarrow> int \<Rightarrow> pyfloat \<Rightarrow> pyfloat \<Rightarrow> py_error + pyfloat" where
  "calculate_reimbursement_of_int A days miles receipts =
     (case float_of_int A days of
        None \<Rightarrow> Inl OverflowError
      | Some trip_duration_days \<Rightarrow> calculate_reimbursement_in A trip_duration_days miles receipts)"

definition main_in ::
  "float_arithmetic \<Rightarrow> (string \<Rightarrow> int option) \<Rightarrow> (string \<Rightarrow> pyfloat option) \<Rightarrow> string list \<Rightarrow> run" where
  "main_in A py_int py_float argv =
     (if length argv \<noteq> 4 then
        \<lparr>ending = Exited 1 [] usage_message, invoked = []\<rparr>
      else
        case py_int (argv ! 1) of
          None \<Rightarrow> \<lparr>ending = Exited 1 [] format_message, invoked = []\<rparr>
        | Some days \<Rightarrow>
        case py_float (argv ! 2) of
          None \<Rightarrow> \<lparr>ending = Exited 1 [] format_message, invoked = []\<rparr>
        | Some miles \<Rightarrow>
        case py_float (argv ! 3) of
          None \<Rightarrow> \<lparr>ending = Exited 1 [] format_message, invoked = []\<rparr>
        | Some receipts \<Rightarrow>
            if days < 1 \<or> miles < Finite 0 \<or> receipts < Finite 0 then
              \<lparr>ending = Exited 1 [] range_message, invoked = []\<rparr>
            else
              case calculate_reimbursement_of_int A days miles receipts of
                Inl ValueError \<Rightarrow>
                  \<lparr>ending = Exited 1 [] format_message,
                   invoked = [(Finite (of_int days), miles, receipts)]\<rparr>
              | Inl e \<Rightarrow>
                  \<lparr>ending = Uncaught e, invoked = [(Finite (of_int days), miles, receipts)]\<rparr>
              | Inr result \<Rightarrow>
                  \<lparr>ending = Exited 0 (format_2f result @ newline) [],
                   invoked = [(Finite (of_int days), miles, receipts)]\<rparr>)"

text \<open>
  Two facts of the machine's arithmetic that some theorems below need of the record.
  The first: the product of a literal of the source (each is at least a quarter and at
  most a hundred) with a float that is not negative is not negative, and neither is the
  sum of two such floats, nor what \<^verbatim>\<open>round\<close> makes of one. The second: the float of an
  integer that is at least 1 is at least 1.
\<close>

definition keeps_nonneg :: "float_arithmetic \<Rightarrow> bool" where
  "keeps_nonneg A =
     ((\<forall>c x. 1 / 4 \<le> c \<and> c \<le> 100 \<and> Finite 0 \<le> x \<longrightarrow> Finite 0 \<le> float_mul A (float_lit A c) x) \<and>
      (\<forall>x y. Finite 0 \<le> x \<and> Finite 0 \<le> y \<longrightarrow> Finite 0 \<le> float_add A x y) \<and>
      (\<forall>x n. Finite 0 \<le> x \<longrightarrow> Finite 0 \<le> float_round A x n))"

definition converts_positive :: "float_arithmetic \<Rightarrow> bool" where
  "converts_positive A =
     (\<forall>n x. 1 \<le> n \<and> float_of_int A n = Some x \<longrightarrow> Finite 1 \<le> x)"

text \<open>
  Two parsers to run \<open>main\<close> on concrete command lines. They read plain decimal
  integers, with an optional minus sign, as \<^verbatim>\<open>int\<close> and \<^verbatim>\<open>float\<close> do on such strings;
  the second also reads \<^verbatim>\<open>inf\<close> and \<^verbatim>\<open>nan\<close>, as \<^verbatim>\<open>float\<close> does. They reject every other
  string; the theorems about \<open>main\<close> hold for any parsers.
\<close>

fun digits_value :: "string \<Rightarrow> nat \<Rightarrow> nat option" where
  "digits_value [] acc = Some acc"
| "digits_value (c # cs) acc =
     (if is_digit c then digits_value cs (10 * acc + (of_char c - 48)) else None)"

definition sample_int :: "string \<Rightarrow> int option" where
  "sample_int s =
     (case s of
        [] \<Rightarrow> None
      | c # cs \<Rightarrow>
          if c = CHR ''-'' then
            (if cs = [] then None else map_option (\<lambda>n. - int n) (digits_value cs 0))
          else map_option int (digits_value s 0))"

definition sample_float :: "string \<Rightarrow> pyfloat option" where
  "sample_float s =
     (if s = ''inf'' then Some PosInf
      else if s = ''nan'' then Some NaN
      else map_option (\<lambda>n. Finite (of_int n)) (sample_int s))"

section \<open>The coefficient deriver: \<^verbatim>\<open>derive_coefficients.py\<close>\<close>

text \<open>
  A record of the input file: the dictionary \<^verbatim>\<open>entry\<close> with its nested dictionary
  \<^verbatim>\<open>entry["input"]\<close>, both with all their keys. The numbers are JSON numbers.
\<close>

record trip =
  trip_duration_days :: pyfloat
  miles_traveled :: pyfloat
  total_receipts_amount :: pyfloat

record entry =
  input :: trip
  expected_output :: pyfloat

definition classify_trip :: "entry \<Rightarrow> py_error + int" where
  "classify_trip entry =
     (let days = trip_duration_days (input entry);
          miles = miles_traveled (input entry);
          receipts = total_receipts_amount (input entry)
      in case py_truediv receipts days of
           Inl e \<Rightarrow> Inl e
         | Inr receipts_per_day \<Rightarrow>
             if Finite 5 \<le> days \<and> days \<le> Finite 12 \<and> receipts_per_day \<ge> Finite 100 then Inr 0
             else if days \<le> Finite 6 \<and> receipts_per_day < Finite 100 then Inr 1
             else if days \<le> Finite 9 \<and> miles \<ge> Finite 400 then Inr 2
             else Inr (- 1))"

section \<open>The specification's classification table\<close>

text \<open>
  The specification gives the classification as an ordered list of rules over real
  numbers, the first rule that matches winning, and a coefficient triple for each
  branch. The definitions of this section follow the specification's words; the
  theorems compare them with the code above.
\<close>

definition spec_rules :: "((real \<Rightarrow> real \<Rightarrow> real \<Rightarrow> bool) \<times> branch) list" where
  "spec_rules =
     [(\<lambda>days miles receipts. 5 \<le> days \<and> days \<le> 12 \<and> receipts / days \<ge> 100, LongHighReceipts),
      (\<lambda>days miles receipts. days \<le> 6 \<and> receipts / days < 100, ShortLowActivity),
      (\<lambda>days miles receipts. days \<le> 9 \<and> miles \<ge> 400, MidHighMileage)]"

fun first_match :: "((real \<Rightarrow> real \<Rightarrow> real \<Rightarrow> bool) \<times> branch) list \<Rightarrow> real \<Rightarrow> real \<Rightarrow> real \<Rightarrow> branch" where
  "first_match [] days miles receipts = Default"
| "first_match ((rule, b) # rules) days miles receipts =
     (if rule days miles receipts then b else first_match rules days miles receipts)"

definition short_low_activity_coefficients :: "real \<times> real \<times> real" where
  "short_low_activity_coefficients = (94.201797, 0.462207, 0.253290)"

fun spec_coefficients :: "branch \<Rightarrow> real \<times> real \<times> real" where
  "spec_coefficients LongHighReceipts = (87.111841, 0.673030, 0.285504)"
| "spec_coefficients ShortLowActivity = short_low_activity_coefficients"
| "spec_coefficients MidHighMileage = (73.582926, 0.506600, 0.462858)"
| "spec_coefficients Default = short_low_activity_coefficients"

definition spec_formula :: "branch \<Rightarrow> real \<Rightarrow> real \<Rightarrow> real \<Rightarrow> real" where
  "spec_formula b days miles receipts =
     (case spec_coefficients b of
        (days_coef, miles_coef, receipts_coef) \<Rightarrow>
          days_coef * days + miles_coef * miles + receipts_coef * receipts)"

text \<open>
  The same table for the floats of a run: the rules test the quotient the arithmetic
  gives, and the formula of a branch is evaluated in the arithmetic.
\<close>

definition spec_rules_in ::
  "float_arithmetic \<Rightarrow> ((pyfloat \<Rightarrow> pyfloat \<Rightarrow> pyfloat \<Rightarrow> bool) \<times> branch) list" where
  "spec_rules_in A =
     [(\<lambda>days miles receipts.
         Finite 5 \<le> days \<and> days \<le> Finite 12 \<and> float_quot A receipts days \<ge> Finite 100,
       LongHighReceipts),
      (\<lambda>days miles receipts. days \<le> Finite 6 \<and> float_quot A receipts days < Finite 100,
       ShortLowActivity),
      (\<lambda>days miles receipts. days \<le> Finite 9 \<and> miles \<ge> Finite 400, MidHighMileage)]"

fun first_rule ::
  "((pyfloat \<Rightarrow> pyfloat \<Rightarrow> pyfloat \<Rightarrow> bool) \<times> branch) list \<Rightarrow> pyfloat \<Rightarrow> pyfloat \<Rightarrow> pyfloat \<Rightarrow> branch" where
  "first_rule [] days miles receipts = Default"
| "first_rule ((rule, b) # rules) days miles receipts =
     (if rule days miles receipts then b else first_rule rules days miles receipts)"

definition spec_formula_in ::
  "float_arithmetic \<Rightarrow> branch \<Rightarrow> pyfloat \<Rightarrow> pyfloat \<Rightarrow> pyfloat \<Rightarrow> pyfloat" where
  "spec_formula_in A b days miles receipts =
     (case spec_coefficients b of
        (days_coef, miles_coef, receipts_coef) \<Rightarrow>
          linear_in A days_coef miles_coef receipts_coef days miles receipts)"

text \<open>The cluster number \<^verbatim>\<open>classify_trip\<close> gives to a branch of the calculator.\<close>

fun cluster_of :: "branch \<Rightarrow> int" where
  "cluster_of LongHighReceipts = 0"
| "cluster_of ShortLowActivity = 1"
| "cluster_of MidHighMileage = 2"
| "cluster_of Default = - 1"

section \<open>Facts about the built-ins\<close>

lemmas eval_round = round_half_even_def Let_def

lemmas eval_parse = sample_float_def sample_int_def is_digit_def

text \<open>The rounding of the model is to a nearest integer, and to the even one at a tie.\<close>

lemma round_half_even_nearest: "\<bar>of_int (round_half_even x) - x\<bar> \<le> 1 / 2"
proof -
  have "of_int \<lfloor>x\<rfloor> \<le> x" "x < of_int \<lfloor>x\<rfloor> + 1" by linarith+
  then show ?thesis
    by (auto simp add: round_half_even_def Let_def)
qed

lemma round_half_even_tie:
  "\<bar>of_int (round_half_even x) - x\<bar> = 1 / 2 \<Longrightarrow> even (round_half_even x)"
proof -
  have "of_int \<lfloor>x\<rfloor> \<le> x" "x < of_int \<lfloor>x\<rfloor> + 1" by linarith+
  then show "\<bar>of_int (round_half_even x) - x\<bar> = 1 / 2 \<Longrightarrow> even (round_half_even x)"
    by (auto simp add: round_half_even_def Let_def split: if_splits)
qed

lemma py_round_ties:
  "py_round (Finite 0.125) 2 = Finite 0.12 \<and> py_round (Finite 0.375) 2 = Finite 0.38"
  by (simp add: eval_round)

lemma round_half_even_nonneg: "0 \<le> x \<Longrightarrow> 0 \<le> round_half_even x"
  by (simp add: round_half_even_def Let_def)

lemma py_round_nonneg: "Finite 0 \<le> x \<Longrightarrow> Finite 0 \<le> py_round x n"
  by (cases x) (simp_all add: round_half_even_nonneg)

lemma round_half_even_ge: "of_int k \<le> x \<Longrightarrow> k \<le> round_half_even x"
proof -
  assume "of_int k \<le> x"
  then have "k \<le> \<lfloor>x\<rfloor>" by (simp add: le_floor_iff)
  then show ?thesis by (simp add: round_half_even_def Let_def)
qed

lemma round_half_even_le: "of_int (round_half_even x) \<le> x + 1 / 2"
  using round_half_even_nearest [of x] by linarith

text \<open>
  The format \<^verbatim>\<open>.2f\<close> prints two decimal places for every finite number, and for no
  other float.
\<close>

lemma is_digit_digit_char: "is_digit (digit_char n)"
proof -
  have "n mod 10 < length ''0123456789''" by simp
  then have "''0123456789'' ! (n mod 10) \<in> set ''0123456789''" by (rule nth_mem)
  then show ?thesis unfolding is_digit_def digit_char_def .
qed

lemma str_nat_digits: "str_nat n \<noteq> [] \<and> list_all is_digit (str_nat n)"
proof (induction n rule: str_nat.induct)
  case (1 n)
  show ?case
  proof (cases "n < 10")
    case True
    then show ?thesis by (simp add: is_digit_digit_char)
  next
    case False
    with "1" show ?thesis by (simp add: is_digit_digit_char)
  qed
qed

lemma hd_str_nat: "is_digit (hd (str_nat n))"
  using str_nat_digits [of n] by (cases "str_nat n") simp_all

lemma not_digit_minus: "\<not> is_digit CHR ''-''"
  by (simp add: is_digit_def)

lemma format_2f_two_decimal_places: "two_decimal_places (format_2f (Finite x))"
proof (cases "x < 0")
  case True
  then show ?thesis
    using str_nat_digits [of "nat (round_half_even (\<bar>x\<bar> * 100)) div 100"]
    by (simp add: two_decimal_places_def Let_def is_digit_digit_char)
next
  case False
  have "hd (str_nat n) \<noteq> CHR ''-''" for n
    using hd_str_nat [of n] not_digit_minus by metis
  moreover have "str_nat n \<noteq> []" for n
    using str_nat_digits by simp
  ultimately show ?thesis using False
    using str_nat_digits [of "nat (round_half_even (\<bar>x\<bar> * 100)) div 100"]
    by (simp add: two_decimal_places_def Let_def is_digit_digit_char)
qed

lemma format_2f_finite: "is_finite x \<Longrightarrow> two_decimal_places (format_2f x)"
  by (cases x) (simp_all add: format_2f_two_decimal_places del: format_2f.simps)

lemma format_2f_not_finite:
  "\<not> two_decimal_places (format_2f PosInf) \<and> \<not> two_decimal_places (format_2f NegInf) \<and>
   \<not> two_decimal_places (format_2f NaN)"
  by (simp add: two_decimal_places_def is_digit_def)

lemma two_decimal_places_iff_finite: "two_decimal_places (format_2f x) = is_finite x"
  using format_2f_finite [of x] format_2f_not_finite by (cases x) simp_all

lemma format_2f_examples:
  "format_2f (Finite 955.49) = ''955.49'' \<and> format_2f (Finite 12345.678) = ''12345.68'' \<and>
   format_2f (Finite (- 0.001)) = ''-0.00''"
  by (simp add: round_half_even_def Let_def digit_char_def)

text \<open>The sample parsers on \<^verbatim>\<open>0\<close> and on a power of ten, written as 1 and its zeros.\<close>

lemma sample_int_zero: "sample_int ''0'' = Some 0"
  by (simp add: eval_parse)

lemma digits_value_zeros: "digits_value (replicate n CHR ''0'') acc = Some (acc * 10 ^ n)"
  by (induction n arbitrary: acc) (simp_all add: is_digit_def)

lemma sample_int_power_of_ten: "sample_int (CHR ''1'' # replicate n CHR ''0'') = Some (10 ^ n)"
  by (simp add: sample_int_def is_digit_def digits_value_zeros)

section \<open>The calculator in exact arithmetic\<close>

text \<open>
  On finite numbers, whenever the division does not raise, the \<^verbatim>\<open>if\<close>/\<^verbatim>\<open>elif\<close> chain
  takes the branch of the first matching rule of the table and evaluates that branch's
  formula; the function returns the formula's value rounded, without any other change.
\<close>

lemma body_finite:
  "d \<noteq> 0 \<Longrightarrow>
   calculate_reimbursement_body (Finite d) (Finite m) (Finite r) =
     Inr (first_match spec_rules d m r,
          Finite (spec_formula (first_match spec_rules d m r) d m r))"
  by (simp add: calculate_reimbursement_body_def py_truediv_def spec_rules_def spec_formula_def
      short_low_activity_coefficients_def)

lemma calculate_reimbursement_finite:
  "d \<noteq> 0 \<Longrightarrow>
   calculate_reimbursement (Finite d) (Finite m) (Finite r) =
     Inr (py_round (Finite (spec_formula (first_match spec_rules d m r) d m r)) 2)"
  by (simp add: calculate_reimbursement_def body_finite)

text \<open>With days that are not zero the function returns, on all floats.\<close>

lemma ge_one_nonneg: "Finite 1 \<le> d \<Longrightarrow> Finite 0 \<le> d \<and> d \<noteq> Finite 0"
  by (cases d) simp_all

lemma body_total:
  "d \<noteq> Finite 0 \<Longrightarrow> \<exists>b v. calculate_reimbursement_body d m r = Inr (b, v)"
  by (simp add: calculate_reimbursement_body_def py_truediv_def)

lemma calculate_reimbursement_total:
  "d \<noteq> Finite 0 \<Longrightarrow> \<exists>v. calculate_reimbursement d m r = Inr v"
  using body_total [of d m r] by (auto simp add: calculate_reimbursement_def)

text \<open>A positive multiple and a sum of floats that are not negative are not negative.\<close>

lemma scale_nonneg: "0 < c \<Longrightarrow> Finite 0 \<le> x \<Longrightarrow> Finite 0 \<le> Finite c * x"
  by (cases x) simp_all

lemma add_nonneg: "Finite 0 \<le> x \<Longrightarrow> Finite 0 \<le> y \<Longrightarrow> Finite 0 \<le> x + y"
  by (cases x; cases y) simp_all

lemma pos_inf_add: "Finite 0 \<le> t \<Longrightarrow> PosInf + t = PosInf"
  by (cases t) simp_all

text \<open>
  NaN is not below 0, so the range check of \<open>main\<close> lets it pass, although it is not a
  non-negative number: the run on \<^verbatim>\<open>1 nan 0\<close> calls the function and prints \<^verbatim>\<open>nan\<close>.
\<close>

lemma nan_passes_range_check:
  "main sample_int sample_float [''calculate_reimbursement.py'', ''1'', ''nan'', ''0''] =
     \<lparr>ending = Exited 0 (''nan'' @ newline) [], invoked = [(Finite 1, NaN, Finite 0)]\<rparr>"
  by (simp add: main_def eval_parse calculate_reimbursement_def calculate_reimbursement_body_def
      py_truediv_def)

section \<open>The calculator in any arithmetic\<close>

text \<open>
  Whatever the arithmetic is, the chain takes the branch of the first rule of the table
  that matches, the rules tested on the quotient the arithmetic gives, and evaluates
  that branch's formula in the arithmetic; with days that are not zero the function
  returns.
\<close>

lemma body_in_first_rule:
  "d \<noteq> Finite 0 \<Longrightarrow>
   calculate_reimbursement_body_in A d m r =
     Inr (first_rule (spec_rules_in A) d m r,
          spec_formula_in A (first_rule (spec_rules_in A) d m r) d m r)"
  by (simp add: calculate_reimbursement_body_in_def truediv_in_def spec_rules_in_def
      spec_formula_in_def short_low_activity_coefficients_def)

lemma body_in_total:
  "d \<noteq> Finite 0 \<Longrightarrow> \<exists>b v. calculate_reimbursement_body_in A d m r = Inr (b, v)"
  by (simp add: calculate_reimbursement_body_in_def truediv_in_def)

lemma calculate_reimbursement_in_total:
  "d \<noteq> Finite 0 \<Longrightarrow> \<exists>v. calculate_reimbursement_in A d m r = Inr v"
  using body_in_total [of d A m r] by (auto simp add: calculate_reimbursement_in_def)

text \<open>
  In an arithmetic that keeps products and sums of non-negative floats non-negative,
  every formula is non-negative on days, miles and receipts that are.
\<close>

lemma linear_in_nonneg:
  assumes "keeps_nonneg A" "1 / 4 \<le> a" "a \<le> 100" "1 / 4 \<le> b" "b \<le> 100" "1 / 4 \<le> c" "c \<le> 100"
    "Finite 0 \<le> d" "Finite 0 \<le> m" "Finite 0 \<le> r"
  shows "Finite 0 \<le> linear_in A a b c d m r"
proof -
  from assms(1) have
    mul: "\<And>c x. 1 / 4 \<le> c \<Longrightarrow> c \<le> 100 \<Longrightarrow> Finite 0 \<le> x \<Longrightarrow> Finite 0 \<le> float_mul A (float_lit A c) x" and
    add: "\<And>x y. Finite 0 \<le> x \<Longrightarrow> Finite 0 \<le> y \<Longrightarrow> Finite 0 \<le> float_add A x y"
    unfolding keeps_nonneg_def by blast+
  show ?thesis unfolding linear_in_def
    using assms(2-) by (intro add mul)
qed

lemma body_in_nonneg:
  assumes "keeps_nonneg A" "Finite 1 \<le> d" "Finite 0 \<le> m" "Finite 0 \<le> r"
  shows "\<exists>b v. calculate_reimbursement_body_in A d m r = Inr (b, v) \<and> Finite 0 \<le> v"
proof -
  from assms(2) have d: "Finite 0 \<le> d" "d \<noteq> Finite 0" using ge_one_nonneg by blast+
  have f: "Finite 0 \<le> linear_in A a b c d m r"
    if "1 / 4 \<le> a" "a \<le> 100" "1 / 4 \<le> b" "b \<le> 100" "1 / 4 \<le> c" "c \<le> 100" for a b c
    using assms(1) that d(1) assms(3,4) by (rule linear_in_nonneg)
  show ?thesis
    using d(2) by (simp add: calculate_reimbursement_body_in_def truediv_in_def f)
qed

text \<open>
  In the exact arithmetic the definitions of this section are those of the first
  sections, and the exact arithmetic has the two properties.
\<close>

lemma exact_body:
  "calculate_reimbursement_body_in exact_arithmetic d m r = calculate_reimbursement_body d m r"
  by (simp add: calculate_reimbursement_body_in_def calculate_reimbursement_body_def
      truediv_in_def py_truediv_def linear_in_def exact_arithmetic_def)

lemma exact_round: "float_round exact_arithmetic = py_round"
  by (simp add: exact_arithmetic_def)

lemma exact_of_int: "float_of_int exact_arithmetic n = Some (Finite (of_int n))"
  by (simp add: exact_arithmetic_def)

lemma exact_calculate_reimbursement:
  "calculate_reimbursement_in exact_arithmetic d m r = calculate_reimbursement d m r"
  by (simp add: calculate_reimbursement_in_def calculate_reimbursement_def exact_body exact_round
      split: sum.splits)

lemma exact_calculate_reimbursement_of_int:
  "calculate_reimbursement_of_int exact_arithmetic days m r =
     calculate_reimbursement (Finite (of_int days)) m r"
  by (simp add: calculate_reimbursement_of_int_def exact_of_int exact_calculate_reimbursement)

lemma exact_main: "main_in exact_arithmetic py_int py_float argv = main py_int py_float argv"
  by (simp add: main_in_def main_def exact_calculate_reimbursement_of_int split: option.splits)

lemma exact_keeps_nonneg: "keeps_nonneg exact_arithmetic"
  unfolding keeps_nonneg_def exact_arithmetic_def
  by (simp add: scale_nonneg add_nonneg py_round_nonneg)

lemma exact_converts_positive: "converts_positive exact_arithmetic"
  unfolding converts_positive_def exact_arithmetic_def by auto

section \<open>The 64-bit floats\<close>

lemma binary64_ops:
  "float_lit binary64_arithmetic = binary64"
  "float_add binary64_arithmetic x y = rounded (x + y)"
  "float_mul binary64_arithmetic x y = rounded (x * y)"
  "float_quot binary64_arithmetic x y = rounded (float_div x y)"
  "float_round binary64_arithmetic x n = rounded (py_round x n)"
  by (simp_all add: binary64_arithmetic_def)

text \<open>
  Rounding to a float is monotone where it matters here: the float of a number that is
  not negative is not negative, and the float of a number that is at least a power of
  two is at least that power, or infinite.
\<close>

lemma binary64_nonneg: "0 \<le> x \<Longrightarrow> Finite 0 \<le> binary64 x"
proof (cases "x = 0")
  case True
  then show ?thesis by (simp add: binary64_def)
next
  case False
  assume "0 \<le> x"
  with False have pos: "0 < x" by simp
  define e where "e = max \<lfloor>log 2 \<bar>x\<bar>\<rfloor> (- 1022)"
  define ulp :: real where "ulp = 2 powr (of_int e - 52)"
  have ulp: "0 < ulp" by (simp add: ulp_def)
  with pos have "0 \<le> x / ulp" by simp
  then have "0 \<le> round_half_even (x / ulp)" by (rule round_half_even_nonneg)
  with ulp have "0 \<le> of_int (round_half_even (x / ulp)) * ulp" by simp
  with pos False show ?thesis
    by (simp add: binary64_def Let_def e_def ulp_def)
qed

lemma log2_bounds:
  assumes "0 < x"
  shows "2 powr of_int \<lfloor>log 2 x\<rfloor> \<le> x"
proof -
  have "of_int \<lfloor>log 2 x\<rfloor> \<le> log 2 x" by simp
  then have "2 powr of_int \<lfloor>log 2 x\<rfloor> \<le> 2 powr log 2 x" by simp
  with assms show ?thesis by simp
qed

lemma floor_log2_ge:
  assumes "2 powr of_int k \<le> x"
  shows "k \<le> \<lfloor>log 2 x\<rfloor>"
proof -
  have "0 < (2::real) powr of_int k" by simp
  with assms have pos: "0 < x" by linarith
  from assms pos have "log 2 (2 powr of_int k) \<le> log 2 x"
    by (simp del: log_powr_cancel)
  then have "of_int k \<le> log 2 x" by simp
  then show ?thesis by (simp add: le_floor_iff)
qed

lemma binary64_ge:
  assumes "- 1022 \<le> k" "2 powr of_int k \<le> x"
  shows "binary64 x = PosInf \<or> (\<exists>y. binary64 x = Finite y \<and> 2 powr of_int k \<le> y)"
proof -
  have "0 < (2::real) powr of_int k" by simp
  with assms(2) have pos: "0 < x" by linarith
  define e where "e = \<lfloor>log 2 x\<rfloor>"
  from pos assms(2) have ke: "k \<le> e" unfolding e_def by (simp add: floor_log2_ge)
  with assms(1) have emax: "max e (- 1022) = e" by simp
  define ulp :: real where "ulp = 2 powr (of_int e - 52)"
  have ulp: "0 < ulp" by (simp add: ulp_def)
  have "2 powr of_int e \<le> x" using log2_bounds [OF pos] pos by (simp add: e_def)
  then have "2 powr of_int e / ulp \<le> x / ulp" using ulp by (simp add: divide_right_mono)
  moreover have "2 powr of_int e / ulp = 2 ^ 52"
    unfolding ulp_def by (simp add: powr_diff flip: powr_numeral)
  ultimately have "of_int (2 ^ 52) \<le> x / ulp" by simp
  then have "2 ^ 52 \<le> round_half_even (x / ulp)" by (rule round_half_even_ge)
  then have "(2 ^ 52 :: real) \<le> of_int (round_half_even (x / ulp))"
    by (metis of_int_le_iff of_int_numeral of_int_power)
  then have "2 ^ 52 * ulp \<le> of_int (round_half_even (x / ulp)) * ulp"
    using ulp by simp
  moreover have "2 ^ 52 * ulp = 2 powr of_int e"
    unfolding ulp_def by (simp add: powr_diff flip: powr_numeral)
  ultimately have y: "2 powr of_int e \<le> of_int (round_half_even (x / ulp)) * ulp" by simp
  have "2 powr of_int k \<le> (2::real) powr of_int e" using ke by simp
  with y have yk: "2 powr of_int k \<le> of_int (round_half_even (x / ulp)) * ulp" by linarith
  show ?thesis
    using pos yk [unfolded ulp_def e_def] emax [unfolded e_def]
    by (simp add: binary64_def Let_def del: power_numeral)
qed

text \<open>
  A finite float is below \<open>2 ^ 1024\<close>; a number from \<open>2 ^ 1024\<close> on has no finite float;
  a number well below has one.
\<close>

lemma binary64_finite_bound: "binary64 x = Finite y \<Longrightarrow> \<bar>y\<bar> < 2 ^ 1024"
  by (auto simp add: binary64_def Let_def simp del: power_numeral split: if_splits)

lemma binary64_overflow:
  assumes "2 ^ 1024 \<le> x"
  shows "binary64 x = PosInf"
proof -
  have "(2::real) powr of_int 1024 = 2 ^ 1024"
    by (simp add: powr_numeral del: power_numeral)
  with assms have "2 powr of_int 1024 \<le> x" by simp
  then have "binary64 x = PosInf \<or> (\<exists>y. binary64 x = Finite y \<and> 2 powr of_int 1024 \<le> y)"
    by (intro binary64_ge) simp
  moreover have "\<not> (\<exists>y. binary64 x = Finite y \<and> 2 powr of_int 1024 \<le> y)"
  proof
    assume "\<exists>y. binary64 x = Finite y \<and> 2 powr of_int 1024 \<le> y"
    then obtain y where y: "binary64 x = Finite y" "2 powr of_int 1024 \<le> y" by blast
    from binary64_finite_bound [OF y(1)] have "y < 2 ^ 1024" by linarith
    with y(2) \<open>(2::real) powr of_int 1024 = 2 ^ 1024\<close> show False by linarith
  qed
  ultimately show ?thesis by blast
qed

lemma binary64_between:
  assumes "- 1022 \<le> k" "2 powr of_int k \<le> x" "2 * x < 2 ^ 1024"
  shows "\<exists>y. binary64 x = Finite y \<and> 2 powr of_int k \<le> y"
proof -
  have "0 < (2::real) powr of_int k" by simp
  with assms(2) have pos: "0 < x" by linarith
  define e where "e = \<lfloor>log 2 x\<rfloor>"
  from pos assms(2) have ke: "k \<le> e" unfolding e_def by (simp add: floor_log2_ge)
  with assms(1) have emax: "max e (- 1022) = e" by simp
  define ulp :: real where "ulp = 2 powr (of_int e - 52)"
  have ulp: "0 < ulp" by (simp add: ulp_def)
  have xe: "2 powr of_int e \<le> x" using log2_bounds [OF pos] by (simp add: e_def)
  have "ulp \<le> 2 powr of_int e" unfolding ulp_def by simp
  with xe have ux: "ulp \<le> x" by linarith
  define y where "y = of_int (round_half_even (x / ulp)) * ulp"
  have "of_int (round_half_even (x / ulp)) \<le> x / ulp + 1 / 2" by (rule round_half_even_le)
  then have "y \<le> (x / ulp + 1 / 2) * ulp"
    unfolding y_def using ulp by (simp add: mult_right_mono)
  also have "\<dots> = x + ulp / 2" using ulp by (simp add: field_simps)
  also have "\<dots> \<le> 2 * x" using ux ulp by simp
  finally have "y < 2 ^ 1024" using assms(3) by linarith
  moreover have "0 \<le> y" unfolding y_def using ulp pos
    by (simp add: round_half_even_nonneg)
  ultimately have small: "\<not> 2 ^ 1024 \<le> \<bar>y\<bar>" by simp
  have "binary64 x = PosInf \<or> (\<exists>y. binary64 x = Finite y \<and> 2 powr of_int k \<le> y)"
    using assms(1,2) by (rule binary64_ge)
  moreover have "binary64 x \<noteq> PosInf"
    using pos small [unfolded y_def ulp_def e_def] emax [unfolded e_def]
    by (simp add: binary64_def Let_def del: power_numeral)
  ultimately show ?thesis by blast
qed

text \<open>The arithmetic of the machine has the two properties.\<close>

lemma rounded_nonneg: "Finite 0 \<le> v \<Longrightarrow> Finite 0 \<le> rounded v"
  by (cases v) (simp_all add: binary64_nonneg)

lemma binary64_literal:
  assumes "1 / 4 \<le> c" "c \<le> 100"
  shows "\<exists>y. binary64 c = Finite y \<and> 1 / 4 \<le> y"
proof -
  have q: "(2::real) powr of_int (- 2) = 1 / 4"
    by (simp add: powr_minus_divide)
  have "\<exists>y. binary64 c = Finite y \<and> 2 powr of_int (- 2) \<le> y"
  proof (rule binary64_between)
    show "- 1022 \<le> (- 2 :: int)" by simp
    show "2 powr of_int (- 2) \<le> c" using assms(1) q by simp
    have "(200::real) < 2 ^ 8" by simp
    also have "(2::real) ^ 8 \<le> 2 ^ 1024" by (rule power_increasing) simp_all
    finally show "2 * c < 2 ^ 1024" using assms(2) by linarith
  qed
  then obtain y where "binary64 c = Finite y" "2 powr of_int (- 2) \<le> y" by blast
  with q have "binary64 c = Finite y \<and> 1 / 4 \<le> y" by linarith
  then show ?thesis by blast
qed

lemma binary64_keeps_nonneg: "keeps_nonneg binary64_arithmetic"
proof -
  have m: "Finite 0 \<le> rounded (binary64 c * x)" if "1 / 4 \<le> c" "c \<le> 100" "Finite 0 \<le> x" for c x
  proof -
    from binary64_literal [OF that(1,2)] obtain y where y: "binary64 c = Finite y" "1 / 4 \<le> y"
      by blast
    then have "0 < y" by linarith
    then have "Finite 0 \<le> Finite y * x" using that(3) by (rule scale_nonneg)
    then show ?thesis unfolding y(1) by (rule rounded_nonneg)
  qed
  have a: "Finite 0 \<le> rounded (x + y)" if "Finite 0 \<le> x" "Finite 0 \<le> y" for x y
    using that by (intro rounded_nonneg add_nonneg)
  have r: "Finite 0 \<le> rounded (py_round x n)" if "Finite 0 \<le> x" for x n
    using that by (intro rounded_nonneg py_round_nonneg)
  show ?thesis
    unfolding keeps_nonneg_def binary64_arithmetic_def using m a r by simp
qed

lemma binary64_converts_positive: "converts_positive binary64_arithmetic"
proof -
  have "Finite 1 \<le> Finite x" if "1 \<le> n" "binary64 (of_int n) = Finite x" for n :: int and x
  proof -
    have "(2::real) powr of_int 0 \<le> of_int n" using that(1) by simp
    then have "binary64 (of_int n) = PosInf \<or>
        (\<exists>y. binary64 (of_int n) = Finite y \<and> 2 powr of_int 0 \<le> y)"
      by (intro binary64_ge) simp
    with that(2) show ?thesis by simp
  qed
  then show ?thesis
    unfolding converts_positive_def binary64_arithmetic_def
    by (auto split: pyfloat.splits)
qed

text \<open>
  To compute a float: for a number \<open>x\<close> with \<open>2 ^ 52 \<le> \<bar>x\<bar> * 2 ^ n < 2 ^ 53\<close>, the float
  is \<open>x * 2 ^ n\<close> rounded to an integer, over \<open>2 ^ n\<close>.
\<close>

lemma floor_log2_eq:
  assumes "0 < x" "2 powr of_int k \<le> x" "x < 2 powr (of_int k + 1)"
  shows "\<lfloor>log 2 x\<rfloor> = k"
proof -
  have "of_int k \<le> log 2 x" using assms(1,2) by (simp add: le_log_iff)
  moreover have "log 2 x < of_int k + 1" using assms(1,3) by (simp add: log_less_iff)
  ultimately show ?thesis by linarith
qed

lemma binary64_normal:
  assumes "n \<le> 1074" "2 ^ 52 \<le> \<bar>x\<bar> * 2 ^ n" "\<bar>x\<bar> * 2 ^ n < 2 ^ 53"
  shows "binary64 x = Finite (of_int (round_half_even (x * 2 ^ n)) / 2 ^ n)"
proof -
  have pn: "0 < (2::real) ^ n" by simp
  have "0 < \<bar>x\<bar> * 2 ^ n" using assms(2) by (smt (verit) zero_less_power)
  then have x0: "x \<noteq> 0" by auto
  then have pos: "0 < \<bar>x\<bar>" by simp
  define k :: int where "k = 52 - int n"
  have pk: "2 powr of_int k = (2::real) ^ 52 / 2 ^ n"
    unfolding k_def by (simp add: powr_diff powr_realpow)
  have pk1: "2 powr (of_int k + 1) = (2::real) ^ 53 / 2 ^ n"
    unfolding k_def by (simp add: powr_diff powr_add powr_realpow)
  have lo: "2 powr of_int k \<le> \<bar>x\<bar>"
    unfolding pk using assms(2) pn by (simp add: field_simps)
  have hi: "\<bar>x\<bar> < 2 powr (of_int k + 1)"
    unfolding pk1 using assms(3) pn by (simp add: field_simps)
  from pos lo hi have e: "\<lfloor>log 2 \<bar>x\<bar>\<rfloor> = k" by (rule floor_log2_eq)
  have m: "max k (- 1022) = k" unfolding k_def using assms(1) by simp
  have ulp: "2 powr (of_int k - 52) = 1 / (2::real) ^ n"
    unfolding k_def by (simp add: powr_minus powr_realpow inverse_eq_divide)
  define z where "z = round_half_even (x * 2 ^ n)"
  have "\<bar>of_int z - x * 2 ^ n\<bar> \<le> 1 / 2" unfolding z_def by (rule round_half_even_nearest)
  then have "\<bar>of_int z :: real\<bar> \<le> \<bar>x * 2 ^ n\<bar> + 1 / 2" by linarith
  also have "\<bar>x * 2 ^ n\<bar> = \<bar>x\<bar> * 2 ^ n" by (simp add: abs_mult)
  finally have zb: "\<bar>of_int z :: real\<bar> < 2 ^ 53 + 1 / 2" using assms(3) by linarith
  have "\<bar>of_int z / 2 ^ n :: real\<bar> = \<bar>of_int z\<bar> / 2 ^ n" by simp
  also have "\<dots> \<le> \<bar>of_int z\<bar> / 1"
    by (rule divide_left_mono) simp_all
  finally have "\<bar>of_int z / 2 ^ n :: real\<bar> < 2 ^ 53 + 1 / 2" using zb by linarith
  also have "(2::real) ^ 53 + 1 / 2 < 2 ^ 54" by simp
  also have "(2::real) ^ 54 \<le> 2 ^ 1024" by (rule power_increasing) simp_all
  finally have small: "\<not> 2 ^ 1024 \<le> \<bar>of_int z / 2 ^ n :: real\<bar>" by simp
  show ?thesis
    using x0 small [unfolded z_def]
    by (simp add: binary64_def Let_def e m ulp del: power_numeral)
qed

text \<open>The floats of the nine literals of the source, and of some small integers.\<close>

lemma coefficient_floats:
  "binary64 87.111841 = Finite (3064975427087171 / 2 ^ 45)"
  "binary64 0.673030 = Finite (3031057657209165 / 2 ^ 52)"
  "binary64 0.285504 = Finite (642897854006393 / 2 ^ 51)"
  "binary64 94.201797 = Finite (1657215538542309 / 2 ^ 44)"
  "binary64 0.462207 = Finite (8326381091872139 / 2 ^ 54)"
  "binary64 0.253290 = Finite (1140716749616673 / 2 ^ 52)"
  "binary64 73.582926 = Finite (5177938095537981 / 2 ^ 46)"
  "binary64 0.506600 = Finite (4563047142451787 / 2 ^ 53)"
  "binary64 0.462858 = Finite (2084527116325453 / 2 ^ 52)"
  using binary64_normal [of 46 "87.111841"]
    binary64_normal [of 53 "0.673030"]
    binary64_normal [of 54 "0.285504"]
    binary64_normal [of 46 "94.201797"]
    binary64_normal [of 54 "0.462207"]
    binary64_normal [of 54 "0.253290"]
    binary64_normal [of 46 "73.582926"]
    binary64_normal [of 53 "0.506600"]
    binary64_normal [of 54 "0.462858"]
  by (simp_all add: eval_round)

lemma binary64_small_ints:
  "binary64 1 = Finite 1" "binary64 5 = Finite 5" "binary64 8 = Finite 8" "binary64 100 = Finite 100"
  using binary64_normal [of 52 1] binary64_normal [of 50 5] binary64_normal [of 49 8]
    binary64_normal [of 46 100]
  by (simp_all add: eval_round)

lemma binary64_of_int_8: "float_of_int binary64_arithmetic 8 = Some (Finite 8)"
  using binary64_small_ints(3) by (simp add: binary64_arithmetic_def)

subsection \<open>Calls in the arithmetic of the machine\<close>

text \<open>
  Seven calls, each computed step by step: the quotient, the formula of the branch
  taken (three products, two sums, each rounded), the value returned, and what the
  format \<^verbatim>\<open>.2f\<close> prints of it.
\<close>

lemma machine_8_450_300:
  "float_quot binary64_arithmetic (Finite 300) (Finite 8) = Finite (75 / 2)"
  "linear_in binary64_arithmetic 73.582926 0.506600 0.462858
       (Finite 8) (Finite 450) (Finite 300) =
     Finite (2101146507258171 / 2 ^ 41)"
  "calculate_reimbursement_body_in binary64_arithmetic (Finite 8) (Finite 450) (Finite 300) =
     Inr (MidHighMileage, Finite (2101146507258171 / 2 ^ 41))"
  "calculate_reimbursement_in binary64_arithmetic (Finite 8) (Finite 450) (Finite 300) =
     Inr (binary64 955.49)"
  "format_2f (binary64 955.49) = ''955.49''"
proof -
  have q: "binary64 (300 / 8) = Finite (75 / 2)"
    using binary64_normal [of 47 "300 / 8"] by (simp add: eval_round)
  have p1: "binary64 ((5177938095537981 / 2 ^ 46) * 8) = Finite (5177938095537981 / 2 ^ 43)"
    using binary64_normal [of 43 "(5177938095537981 / 2 ^ 46) * 8"] by (simp add: eval_round)
  have p2: "binary64 ((4563047142451787 / 2 ^ 53) * 450) = Finite (1002622663136379 / 2 ^ 42)"
    using binary64_normal [of 45 "(4563047142451787 / 2 ^ 53) * 450"] by (simp add: eval_round)
  have p3: "binary64 ((2084527116325453 / 2 ^ 52) * 300) = Finite (1221402607221945 / 2 ^ 43)"
    using binary64_normal [of 45 "(2084527116325453 / 2 ^ 52) * 300"] by (simp add: eval_round)
  have s1: "binary64 ((5177938095537981 / 2 ^ 43) + (1002622663136379 / 2 ^ 42)) =
      Finite (7183183421810739 / 2 ^ 43)"
    using binary64_normal [of 43 "(5177938095537981 / 2 ^ 43) + (1002622663136379 / 2 ^ 42)"]
    by (simp add: eval_round)
  have s2: "binary64 ((7183183421810739 / 2 ^ 43) + (1221402607221945 / 2 ^ 43)) =
      Finite (2101146507258171 / 2 ^ 41)"
    using binary64_normal [of 43 "(7183183421810739 / 2 ^ 43) + (1221402607221945 / 2 ^ 43)"]
    by (simp add: eval_round)
  show quot: "float_quot binary64_arithmetic (Finite 300) (Finite 8) = Finite (75 / 2)"
    using q by (simp add: binary64_ops)
  show formula: "linear_in binary64_arithmetic 73.582926 0.506600 0.462858
       (Finite 8) (Finite 450) (Finite 300) =
     Finite (2101146507258171 / 2 ^ 41)"
    using coefficient_floats p1 p2 p3 s1 s2 by (simp add: linear_in_def binary64_ops)
  have body: "calculate_reimbursement_body_in binary64_arithmetic (Finite 8) (Finite 450) (Finite 300) =
      Inr (MidHighMileage,
           linear_in binary64_arithmetic 73.582926 0.506600 0.462858
             (Finite 8) (Finite 450) (Finite 300))"
    using q by (simp add: calculate_reimbursement_body_in_def truediv_in_def binary64_ops)
  then show "calculate_reimbursement_body_in binary64_arithmetic (Finite 8) (Finite 450) (Finite 300) =
      Inr (MidHighMileage, Finite (2101146507258171 / 2 ^ 41))"
    unfolding formula .
  show "calculate_reimbursement_in binary64_arithmetic (Finite 8) (Finite 450) (Finite 300) =
      Inr (binary64 955.49)"
    unfolding calculate_reimbursement_in_def body formula by (simp add: binary64_ops eval_round)
  have v: "binary64 (955.49) = Finite (4202289460894761 / 2 ^ 42)"
    using binary64_normal [of 43 "955.49"] by (simp add: eval_round)
  show "format_2f (binary64 955.49) = ''955.49''"
    unfolding v by (simp add: eval_round digit_char_def)
qed

lemma machine_2_258_800:
  "float_quot binary64_arithmetic (Finite 800) (Finite 2) = Finite 400"
  "linear_in binary64_arithmetic 94.201797 0.462207 0.253290
       (Finite 2) (Finite 258) (Finite 800) =
     Finite (8977028655674819 / 2 ^ 44)"
  "calculate_reimbursement_body_in binary64_arithmetic (Finite 2) (Finite 258) (Finite 800) =
     Inr (Default, Finite (8977028655674819 / 2 ^ 44))"
  "calculate_reimbursement_in binary64_arithmetic (Finite 2) (Finite 258) (Finite 800) =
     Inr (binary64 510.29)"
  "format_2f (binary64 510.29) = ''510.29''"
proof -
  have q: "binary64 (800 / 2) = Finite 400"
    using binary64_normal [of 44 "800 / 2"] by (simp add: eval_round)
  have p1: "binary64 ((1657215538542309 / 2 ^ 44) * 2) = Finite (1657215538542309 / 2 ^ 43)"
    using binary64_normal [of 45 "(1657215538542309 / 2 ^ 44) * 2"] by (simp add: eval_round)
  have p2: "binary64 ((8326381091872139 / 2 ^ 54) * 258) = Finite (4195715472076195 / 2 ^ 45)"
    using binary64_normal [of 46 "(8326381091872139 / 2 ^ 54) * 258"] by (simp add: eval_round)
  have p3: "binary64 ((1140716749616673 / 2 ^ 52) * 800) = Finite (3564739842552103 / 2 ^ 44)"
    using binary64_normal [of 45 "(1140716749616673 / 2 ^ 52) * 800"] by (simp add: eval_round)
  have s1: "binary64 ((1657215538542309 / 2 ^ 43) + (4195715472076195 / 2 ^ 45)) =
      Finite (1353072203280679 / 2 ^ 42)"
    using binary64_normal [of 44 "(1657215538542309 / 2 ^ 43) + (4195715472076195 / 2 ^ 45)"]
    by (simp add: eval_round)
  have s2: "binary64 ((1353072203280679 / 2 ^ 42) + (3564739842552103 / 2 ^ 44)) =
      Finite (8977028655674819 / 2 ^ 44)"
    using binary64_normal [of 44 "(1353072203280679 / 2 ^ 42) + (3564739842552103 / 2 ^ 44)"]
    by (simp add: eval_round)
  show quot: "float_quot binary64_arithmetic (Finite 800) (Finite 2) = Finite 400"
    using q by (simp add: binary64_ops)
  show formula: "linear_in binary64_arithmetic 94.201797 0.462207 0.253290
       (Finite 2) (Finite 258) (Finite 800) =
     Finite (8977028655674819 / 2 ^ 44)"
    using coefficient_floats p1 p2 p3 s1 s2 by (simp add: linear_in_def binary64_ops)
  have body: "calculate_reimbursement_body_in binary64_arithmetic (Finite 2) (Finite 258) (Finite 800) =
      Inr (Default,
           linear_in binary64_arithmetic 94.201797 0.462207 0.253290
             (Finite 2) (Finite 258) (Finite 800))"
    using q by (simp add: calculate_reimbursement_body_in_def truediv_in_def binary64_ops)
  then show "calculate_reimbursement_body_in binary64_arithmetic (Finite 2) (Finite 258) (Finite 800) =
      Inr (Default, Finite (8977028655674819 / 2 ^ 44))"
    unfolding formula .
  show "calculate_reimbursement_in binary64_arithmetic (Finite 2) (Finite 258) (Finite 800) =
      Inr (binary64 510.29)"
    unfolding calculate_reimbursement_in_def body formula by (simp add: binary64_ops eval_round)
  have v: "binary64 (510.29) = Finite (8977116616605041 / 2 ^ 44)"
    using binary64_normal [of 44 "510.29"] by (simp add: eval_round)
  show "format_2f (binary64 510.29) = ''510.29''"
    unfolding v by (simp add: eval_round digit_char_def)
qed

lemma machine_45000_0_0:
  "float_quot binary64_arithmetic (Finite 0) (Finite 45000) = Finite 0"
  "linear_in binary64_arithmetic 94.201797 0.462207 0.253290
       (Finite 45000) (Finite 0) (Finite 0) =
     Finite (2275839210034299 / 2 ^ 29)"
  "calculate_reimbursement_body_in binary64_arithmetic (Finite 45000) (Finite 0) (Finite 0) =
     Inr (Default, Finite (2275839210034299 / 2 ^ 29))"
  "calculate_reimbursement_in binary64_arithmetic (Finite 45000) (Finite 0) (Finite 0) =
     Inr (binary64 4239080.87)"
  "format_2f (binary64 4239080.87) = ''4239080.87''"
proof -
  have q: "binary64 (0 / 45000) = Finite 0"
    by (simp add: binary64_def)
  have p1: "binary64 ((1657215538542309 / 2 ^ 44) * 45000) = Finite (2275839210034299 / 2 ^ 29)"
    using binary64_normal [of 30 "(1657215538542309 / 2 ^ 44) * 45000"] by (simp add: eval_round)
  have p2: "binary64 ((8326381091872139 / 2 ^ 54) * 0) = Finite 0"
    by (simp add: binary64_def)
  have p3: "binary64 ((1140716749616673 / 2 ^ 52) * 0) = Finite 0"
    by (simp add: binary64_def)
  have s1: "binary64 ((2275839210034299 / 2 ^ 29) + 0) = Finite (2275839210034299 / 2 ^ 29)"
    using binary64_normal [of 30 "(2275839210034299 / 2 ^ 29) + 0"] by (simp add: eval_round)
  have s2: "binary64 ((2275839210034299 / 2 ^ 29) + 0) = Finite (2275839210034299 / 2 ^ 29)"
    using binary64_normal [of 30 "(2275839210034299 / 2 ^ 29) + 0"] by (simp add: eval_round)
  show quot: "float_quot binary64_arithmetic (Finite 0) (Finite 45000) = Finite 0"
    using q by (simp add: binary64_ops)
  show formula: "linear_in binary64_arithmetic 94.201797 0.462207 0.253290
       (Finite 45000) (Finite 0) (Finite 0) =
     Finite (2275839210034299 / 2 ^ 29)"
    using coefficient_floats p1 p2 p3 s1 s2 by (simp add: linear_in_def binary64_ops)
  have body: "calculate_reimbursement_body_in binary64_arithmetic (Finite 45000) (Finite 0) (Finite 0) =
      Inr (Default,
           linear_in binary64_arithmetic 94.201797 0.462207 0.253290
             (Finite 45000) (Finite 0) (Finite 0))"
    using q by (simp add: calculate_reimbursement_body_in_def truediv_in_def binary64_ops)
  then show "calculate_reimbursement_body_in binary64_arithmetic (Finite 45000) (Finite 0) (Finite 0) =
      Inr (Default, Finite (2275839210034299 / 2 ^ 29))"
    unfolding formula .
  show "calculate_reimbursement_in binary64_arithmetic (Finite 45000) (Finite 0) (Finite 0) =
      Inr (binary64 4239080.87)"
    unfolding calculate_reimbursement_in_def body formula by (simp add: binary64_ops eval_round)
  have v: "binary64 (4239080.87) = Finite (4551678425437307 / 2 ^ 30)"
    using binary64_normal [of 30 "4239080.87"] by (simp add: eval_round)
  show "format_2f (binary64 4239080.87) = ''4239080.87''"
    unfolding v by (simp add: eval_round digit_char_def)
qed

lemma machine_5_500_500:
  "float_quot binary64_arithmetic (Finite 500) (Finite 5) = Finite 100"
  "linear_in binary64_arithmetic 87.111841 0.673030 0.285504
       (Finite 5) (Finite 500) (Finite 500) =
     Finite (8046896398333525 / 2 ^ 43)"
  "calculate_reimbursement_body_in binary64_arithmetic (Finite 5) (Finite 500) (Finite 500) =
     Inr (LongHighReceipts, Finite (8046896398333525 / 2 ^ 43))"
  "calculate_reimbursement_in binary64_arithmetic (Finite 5) (Finite 500) (Finite 500) =
     Inr (binary64 914.83)"
  "format_2f (binary64 914.83) = ''914.83''"
proof -
  have q: "binary64 (500 / 5) = Finite 100"
    using binary64_normal [of 46 "500 / 5"] by (simp add: eval_round)
  have p1: "binary64 ((3064975427087171 / 2 ^ 45) * 5) = Finite (957804820964741 / 2 ^ 41)"
    using binary64_normal [of 44 "(3064975427087171 / 2 ^ 45) * 5"] by (simp add: eval_round)
  have p2: "binary64 ((3031057657209165 / 2 ^ 52) * 500) = Finite (2960017243368325 / 2 ^ 43)"
    using binary64_normal [of 44 "(3031057657209165 / 2 ^ 52) * 500"] by (simp add: eval_round)
  have p3: "binary64 ((642897854006393 / 2 ^ 51) * 500) = Finite (5022639484424945 / 2 ^ 45)"
    using binary64_normal [of 45 "(642897854006393 / 2 ^ 51) * 500"] by (simp add: eval_round)
  have s1: "binary64 ((957804820964741 / 2 ^ 41) + (2960017243368325 / 2 ^ 43)) =
      Finite (6791236527227289 / 2 ^ 43)"
    using binary64_normal [of 43 "(957804820964741 / 2 ^ 41) + (2960017243368325 / 2 ^ 43)"]
    by (simp add: eval_round)
  have s2: "binary64 ((6791236527227289 / 2 ^ 43) + (5022639484424945 / 2 ^ 45)) =
      Finite (8046896398333525 / 2 ^ 43)"
    using binary64_normal [of 43 "(6791236527227289 / 2 ^ 43) + (5022639484424945 / 2 ^ 45)"]
    by (simp add: eval_round)
  show quot: "float_quot binary64_arithmetic (Finite 500) (Finite 5) = Finite 100"
    using q by (simp add: binary64_ops)
  show formula: "linear_in binary64_arithmetic 87.111841 0.673030 0.285504
       (Finite 5) (Finite 500) (Finite 500) =
     Finite (8046896398333525 / 2 ^ 43)"
    using coefficient_floats p1 p2 p3 s1 s2 by (simp add: linear_in_def binary64_ops)
  have body: "calculate_reimbursement_body_in binary64_arithmetic (Finite 5) (Finite 500) (Finite 500) =
      Inr (LongHighReceipts,
           linear_in binary64_arithmetic 87.111841 0.673030 0.285504
             (Finite 5) (Finite 500) (Finite 500))"
    using q by (simp add: calculate_reimbursement_body_in_def truediv_in_def binary64_ops)
  then show "calculate_reimbursement_body_in binary64_arithmetic (Finite 5) (Finite 500) (Finite 500) =
      Inr (LongHighReceipts, Finite (8046896398333525 / 2 ^ 43))"
    unfolding formula .
  show "calculate_reimbursement_in binary64_arithmetic (Finite 5) (Finite 500) (Finite 500) =
      Inr (binary64 914.83)"
    unfolding calculate_reimbursement_in_def body formula by (simp add: binary64_ops eval_round)
  have v: "binary64 (914.83) = Finite (8046929779506545 / 2 ^ 43)"
    using binary64_normal [of 43 "914.83"] by (simp add: eval_round)
  show "format_2f (binary64 914.83) = ''914.83''"
    unfolding v by (simp add: eval_round digit_char_def)
qed

lemma machine_3_100_50:
  "float_quot binary64_arithmetic (Finite 50) (Finite 3) = Finite (4691249611844267 / 2 ^ 48)"
  "linear_in binary64_arithmetic 94.201797 0.462207 0.253290
       (Finite 3) (Finite 100) (Finite 50) =
     Finite (1501891502322393 / 2 ^ 42)"
  "calculate_reimbursement_body_in binary64_arithmetic (Finite 3) (Finite 100) (Finite 50) =
     Inr (ShortLowActivity, Finite (1501891502322393 / 2 ^ 42))"
  "calculate_reimbursement_in binary64_arithmetic (Finite 3) (Finite 100) (Finite 50) =
     Inr (binary64 341.49)"
  "format_2f (binary64 341.49) = ''341.49''"
proof -
  have q: "binary64 (50 / 3) = Finite (4691249611844267 / 2 ^ 48)"
    using binary64_normal [of 48 "50 / 3"] by (simp add: eval_round)
  have p1: "binary64 ((1657215538542309 / 2 ^ 44) * 3) = Finite (4971646615626927 / 2 ^ 44)"
    using binary64_normal [of 44 "(1657215538542309 / 2 ^ 44) * 3"] by (simp add: eval_round)
  have p2: "binary64 ((8326381091872139 / 2 ^ 54) * 100) = Finite (6504985228025109 / 2 ^ 47)"
    using binary64_normal [of 47 "(8326381091872139 / 2 ^ 54) * 100"] by (simp add: eval_round)
  have p3: "binary64 ((1140716749616673 / 2 ^ 52) * 50) = Finite (3564739842552103 / 2 ^ 48)"
    using binary64_normal [of 49 "(1140716749616673 / 2 ^ 52) * 50"] by (simp add: eval_round)
  have s1: "binary64 ((4971646615626927 / 2 ^ 44) + (6504985228025109 / 2 ^ 47)) =
      Finite (2892384884565033 / 2 ^ 43)"
    using binary64_normal [of 44 "(4971646615626927 / 2 ^ 44) + (6504985228025109 / 2 ^ 47)"]
    by (simp add: eval_round)
  have s2: "binary64 ((2892384884565033 / 2 ^ 43) + (3564739842552103 / 2 ^ 48)) =
      Finite (1501891502322393 / 2 ^ 42)"
    using binary64_normal [of 44 "(2892384884565033 / 2 ^ 43) + (3564739842552103 / 2 ^ 48)"]
    by (simp add: eval_round)
  show quot: "float_quot binary64_arithmetic (Finite 50) (Finite 3) = Finite (4691249611844267 / 2 ^ 48)"
    using q by (simp add: binary64_ops)
  show formula: "linear_in binary64_arithmetic 94.201797 0.462207 0.253290
       (Finite 3) (Finite 100) (Finite 50) =
     Finite (1501891502322393 / 2 ^ 42)"
    using coefficient_floats p1 p2 p3 s1 s2 by (simp add: linear_in_def binary64_ops)
  have body: "calculate_reimbursement_body_in binary64_arithmetic (Finite 3) (Finite 100) (Finite 50) =
      Inr (ShortLowActivity,
           linear_in binary64_arithmetic 94.201797 0.462207 0.253290
             (Finite 3) (Finite 100) (Finite 50))"
    using q by (simp add: calculate_reimbursement_body_in_def truediv_in_def binary64_ops)
  then show "calculate_reimbursement_body_in binary64_arithmetic (Finite 3) (Finite 100) (Finite 50) =
      Inr (ShortLowActivity, Finite (1501891502322393 / 2 ^ 42))"
    unfolding formula .
  show "calculate_reimbursement_in binary64_arithmetic (Finite 3) (Finite 100) (Finite 50) =
      Inr (binary64 341.49)"
    unfolding calculate_reimbursement_in_def body formula by (simp add: binary64_ops eval_round)
  have v: "binary64 (341.49) = Finite (1501888903076905 / 2 ^ 42)"
    using binary64_normal [of 44 "341.49"] by (simp add: eval_round)
  show "format_2f (binary64 341.49) = ''341.49''"
    unfolding v by (simp add: eval_round digit_char_def)
qed

lemma machine_7_399_0:
  "float_quot binary64_arithmetic (Finite 0) (Finite 7) = Finite 0"
  "linear_in binary64_arithmetic 94.201797 0.462207 0.253290
       (Finite 7) (Finite 399) (Finite 0) =
     Finite (1855608769034211 / 2 ^ 41)"
  "calculate_reimbursement_body_in binary64_arithmetic (Finite 7) (Finite 399) (Finite 0) =
     Inr (Default, Finite (1855608769034211 / 2 ^ 41))"
  "calculate_reimbursement_in binary64_arithmetic (Finite 7) (Finite 399) (Finite 0) =
     Inr (binary64 843.83)"
  "format_2f (binary64 843.83) = ''843.83''"
proof -
  have q: "binary64 (0 / 7) = Finite 0"
    by (simp add: binary64_def)
  have p1: "binary64 ((1657215538542309 / 2 ^ 44) * 7) = Finite (2900127192449041 / 2 ^ 42)"
    using binary64_normal [of 43 "(1657215538542309 / 2 ^ 44) * 7"] by (simp add: eval_round)
  have p2: "binary64 ((8326381091872139 / 2 ^ 54) * 399) = Finite (3244361382477523 / 2 ^ 44)"
    using binary64_normal [of 45 "(8326381091872139 / 2 ^ 54) * 399"] by (simp add: eval_round)
  have p3: "binary64 ((1140716749616673 / 2 ^ 52) * 0) = Finite 0"
    by (simp add: binary64_def)
  have s1: "binary64 ((2900127192449041 / 2 ^ 42) + (3244361382477523 / 2 ^ 44)) =
      Finite (1855608769034211 / 2 ^ 41)"
    using binary64_normal [of 43 "(2900127192449041 / 2 ^ 42) + (3244361382477523 / 2 ^ 44)"]
    by (simp add: eval_round)
  have s2: "binary64 ((1855608769034211 / 2 ^ 41) + 0) = Finite (1855608769034211 / 2 ^ 41)"
    using binary64_normal [of 43 "(1855608769034211 / 2 ^ 41) + 0"] by (simp add: eval_round)
  show quot: "float_quot binary64_arithmetic (Finite 0) (Finite 7) = Finite 0"
    using q by (simp add: binary64_ops)
  show formula: "linear_in binary64_arithmetic 94.201797 0.462207 0.253290
       (Finite 7) (Finite 399) (Finite 0) =
     Finite (1855608769034211 / 2 ^ 41)"
    using coefficient_floats p1 p2 p3 s1 s2 by (simp add: linear_in_def binary64_ops)
  have body: "calculate_reimbursement_body_in binary64_arithmetic (Finite 7) (Finite 399) (Finite 0) =
      Inr (Default,
           linear_in binary64_arithmetic 94.201797 0.462207 0.253290
             (Finite 7) (Finite 399) (Finite 0))"
    using q by (simp add: calculate_reimbursement_body_in_def truediv_in_def binary64_ops)
  then show "calculate_reimbursement_body_in binary64_arithmetic (Finite 7) (Finite 399) (Finite 0) =
      Inr (Default, Finite (1855608769034211 / 2 ^ 41))"
    unfolding formula .
  show "calculate_reimbursement_in binary64_arithmetic (Finite 7) (Finite 399) (Finite 0) =
      Inr (binary64 843.83)"
    unfolding calculate_reimbursement_in_def body formula by (simp add: binary64_ops eval_round)
  have v: "binary64 (843.83) = Finite (7422407174929777 / 2 ^ 43)"
    using binary64_normal [of 43 "843.83"] by (simp add: eval_round)
  show "format_2f (binary64 843.83) = ''843.83''"
    unfolding v by (simp add: eval_round digit_char_def)
qed

lemma machine_7_400_0:
  "float_quot binary64_arithmetic (Finite 0) (Finite 7) = Finite 0"
  "linear_in binary64_arithmetic 73.582926 0.506600 0.462858
       (Finite 7) (Finite 400) (Finite 0) =
     Finite (3156568061807981 / 2 ^ 42)"
  "calculate_reimbursement_body_in binary64_arithmetic (Finite 7) (Finite 400) (Finite 0) =
     Inr (MidHighMileage, Finite (3156568061807981 / 2 ^ 42))"
  "calculate_reimbursement_in binary64_arithmetic (Finite 7) (Finite 400) (Finite 0) =
     Inr (binary64 717.72)"
  "format_2f (binary64 717.72) = ''717.72''"
proof -
  have q: "binary64 (0 / 7) = Finite 0"
    by (simp add: binary64_def)
  have p1: "binary64 ((5177938095537981 / 2 ^ 46) * 7) = Finite (4530695833595733 / 2 ^ 43)"
    using binary64_normal [of 43 "(5177938095537981 / 2 ^ 46) * 7"] by (simp add: eval_round)
  have p2: "binary64 ((4563047142451787 / 2 ^ 53) * 400) = Finite (7129761160080917 / 2 ^ 45)"
    using binary64_normal [of 45 "(4563047142451787 / 2 ^ 53) * 400"] by (simp add: eval_round)
  have p3: "binary64 ((2084527116325453 / 2 ^ 52) * 0) = Finite 0"
    by (simp add: binary64_def)
  have s1: "binary64 ((4530695833595733 / 2 ^ 43) + (7129761160080917 / 2 ^ 45)) =
      Finite (3156568061807981 / 2 ^ 42)"
    using binary64_normal [of 43 "(4530695833595733 / 2 ^ 43) + (7129761160080917 / 2 ^ 45)"]
    by (simp add: eval_round)
  have s2: "binary64 ((3156568061807981 / 2 ^ 42) + 0) = Finite (3156568061807981 / 2 ^ 42)"
    using binary64_normal [of 43 "(3156568061807981 / 2 ^ 42) + 0"] by (simp add: eval_round)
  show quot: "float_quot binary64_arithmetic (Finite 0) (Finite 7) = Finite 0"
    using q by (simp add: binary64_ops)
  show formula: "linear_in binary64_arithmetic 73.582926 0.506600 0.462858
       (Finite 7) (Finite 400) (Finite 0) =
     Finite (3156568061807981 / 2 ^ 42)"
    using coefficient_floats p1 p2 p3 s1 s2 by (simp add: linear_in_def binary64_ops)
  have body: "calculate_reimbursement_body_in binary64_arithmetic (Finite 7) (Finite 400) (Finite 0) =
      Inr (MidHighMileage,
           linear_in binary64_arithmetic 73.582926 0.506600 0.462858
             (Finite 7) (Finite 400) (Finite 0))"
    using q by (simp add: calculate_reimbursement_body_in_def truediv_in_def binary64_ops)
  then show "calculate_reimbursement_body_in binary64_arithmetic (Finite 7) (Finite 400) (Finite 0) =
      Inr (MidHighMileage, Finite (3156568061807981 / 2 ^ 42))"
    unfolding formula .
  show "calculate_reimbursement_in binary64_arithmetic (Finite 7) (Finite 400) (Finite 0) =
      Inr (binary64 717.72)"
    unfolding calculate_reimbursement_in_def body formula by (simp add: binary64_ops eval_round)
  have v: "binary64 (717.72) = Finite (3156565941949563 / 2 ^ 42)"
    using binary64_normal [of 43 "717.72"] by (simp add: eval_round)
  show "format_2f (binary64 717.72) = ''717.72''"
    unfolding v by (simp add: eval_round digit_char_def)
qed

text \<open>
  Two of these calls are at a half cent: the exact value of the formula is 510.285 on
  2 days, 258 miles and receipts of 800, and 4239080.865 on 45000 days. The exact
  arithmetic rounds them to the even cent below; the floats of a run lie above the half
  cent, and a run returns the cent above.
\<close>

lemma exact_arithmetic_at_half_cents:
  "calculate_reimbursement (Finite 2) (Finite 258) (Finite 800) = Inr (Finite 510.28)"
  "calculate_reimbursement (Finite 45000) (Finite 0) (Finite 0) = Inr (Finite 4239080.86)"
  by (simp_all add: calculate_reimbursement_def calculate_reimbursement_body_def py_truediv_def
      eval_round)

text \<open>
  The quotient of a run can reach the threshold of 100 where the exact quotient does
  not: the float of 5.2 is above 5.2, so 520 divided by it is below 100, and rounds to
  100. On such days and receipts a run takes the first branch, where the table read
  with an exact division gives the second.
\<close>

lemma quotient_at_threshold:
  "binary64 5.2 = Finite (5854679515581645 / 2 ^ 50)"
  "float_div (Finite 520) (binary64 5.2) < Finite 100"
  "float_quot binary64_arithmetic (Finite 520) (binary64 5.2) = Finite 100"
  "first_rule (spec_rules_in binary64_arithmetic) (binary64 5.2) m (Finite 520) = LongHighReceipts"
  "first_rule (spec_rules_in exact_arithmetic) (binary64 5.2) m (Finite 520) = ShortLowActivity"
proof -
  show d: "binary64 5.2 = Finite (5854679515581645 / 2 ^ 50)"
    using binary64_normal [of 50 "5.2"] by (simp add: eval_round)
  show below: "float_div (Finite 520) (binary64 5.2) < Finite 100"
    unfolding d by simp
  have "binary64 (520 / (5854679515581645 / 2 ^ 50)) = Finite 100"
    using binary64_normal [of 46 "520 / (5854679515581645 / 2 ^ 50)"] by (simp add: eval_round)
  then show q: "float_quot binary64_arithmetic (Finite 520) (binary64 5.2) = Finite 100"
    unfolding d by (simp add: binary64_ops)
  have days: "Finite 5 \<le> binary64 5.2" "binary64 5.2 \<le> Finite 12" "binary64 5.2 \<le> Finite 6"
    unfolding d by simp_all
  show "first_rule (spec_rules_in binary64_arithmetic) (binary64 5.2) m (Finite 520) =
      LongHighReceipts"
    using days q by (simp add: spec_rules_in_def)
  have "float_quot exact_arithmetic (Finite 520) (binary64 5.2) < Finite 100"
    using below by (simp add: exact_arithmetic_def)
  moreover from this have "\<not> Finite 100 \<le> float_quot exact_arithmetic (Finite 520) (binary64 5.2)"
    by (cases "float_quot exact_arithmetic (Finite 520) (binary64 5.2)") simp_all
  ultimately show "first_rule (spec_rules_in exact_arithmetic) (binary64 5.2) m (Finite 520) =
      ShortLowActivity"
    using days by (simp add: spec_rules_in_def)
qed

subsection \<open>Days beyond the floats\<close>

text \<open>
  \<open>10 ^ 307\<close> has a float, of at least \<open>2 ^ 1019\<close>; on such days the first product of the
  formula is beyond the largest float, and the function returns an infinity. \<open>10 ^ 309\<close>
  has no float.
\<close>

lemma binary64_1e307: "\<exists>y. binary64 (10 ^ 307) = Finite y \<and> 2 ^ 1019 \<le> y"
proof -
  have p: "(2::real) powr of_int 1019 = 2 ^ 1019"
    by (simp add: powr_numeral del: power_numeral)
  have "\<exists>y. binary64 (10 ^ 307) = Finite y \<and> 2 powr of_int 1019 \<le> y"
  proof (rule binary64_between)
    show "- 1022 \<le> (1019 :: int)" by simp
    show "2 powr of_int 1019 \<le> (10::real) ^ 307" unfolding p by simp
    show "2 * (10::real) ^ 307 < 2 ^ 1024" by simp
  qed
  then show ?thesis unfolding p .
qed

lemma long_trip_overflow:
  assumes "2 ^ 1019 \<le> y" "Finite 0 \<le> m" "Finite 0 \<le> r"
  shows "calculate_reimbursement_in binary64_arithmetic (Finite y) m r = Inr PosInf"
proof -
  have "(13::real) \<le> 2 ^ 4" by simp
  also have "(2::real) ^ 4 \<le> 2 ^ 1019" by (rule power_increasing) simp_all
  finally have y13: "13 \<le> y" using assms(1) by linarith
  have q: "(2::real) powr of_int 6 = 2 ^ 6" by (simp add: powr_numeral)
  have "\<exists>c. binary64 94.201797 = Finite c \<and> 2 powr of_int 6 \<le> c"
  proof (rule binary64_between)
    show "- 1022 \<le> (6 :: int)" by simp
    show "2 powr of_int 6 \<le> (94.201797::real)" unfolding q by simp
    have "2 * (94.201797::real) < 2 ^ 8" by simp
    also have "(2::real) ^ 8 \<le> 2 ^ 1024" by (rule power_increasing) simp_all
    finally show "2 * (94.201797::real) < 2 ^ 1024" .
  qed
  then obtain c where c: "binary64 94.201797 = Finite c" "2 ^ 6 \<le> c" unfolding q by blast
  have "(2::real) ^ 1024 \<le> 2 ^ 6 * 2 ^ 1019" by (simp add: power_add [symmetric] del: power_numeral)
  also have "\<dots> \<le> c * y" using c(2) assms(1) by (intro mult_mono) simp_all
  finally have "binary64 (c * y) = PosInf" by (rule binary64_overflow)
  then have first: "rounded (binary64 94.201797 * Finite y) = PosInf"
    unfolding c(1) by simp
  have mul: "Finite 0 \<le> rounded (binary64 c * x)" if "1 / 4 \<le> c" "c \<le> 100" "Finite 0 \<le> x" for c x
    using binary64_keeps_nonneg that unfolding keeps_nonneg_def binary64_ops by blast
  have second: "Finite 0 \<le> rounded (binary64 0.462207 * m)"
    using assms(2) by (intro mul) simp_all
  have third: "Finite 0 \<le> rounded (binary64 0.253290 * r)"
    using assms(3) by (intro mul) simp_all
  have formula: "linear_in binary64_arithmetic 94.201797 0.462207 0.253290 (Finite y) m r = PosInf"
    unfolding linear_in_def binary64_ops first pos_inf_add [OF second] rounded.simps
      pos_inf_add [OF third] ..
  from y13 have "Finite y \<noteq> Finite 0 \<and> \<not> Finite y \<le> Finite 12 \<and> \<not> Finite y \<le> Finite 6 \<and>
      \<not> Finite y \<le> Finite 9"
    by simp
  then have "calculate_reimbursement_body_in binary64_arithmetic (Finite y) m r =
      Inr (Default, linear_in binary64_arithmetic 94.201797 0.462207 0.253290 (Finite y) m r)"
    by (simp add: calculate_reimbursement_body_in_def truediv_in_def)
  then show ?thesis
    unfolding calculate_reimbursement_in_def formula by (simp add: binary64_ops)
qed

lemma binary64_1e309: "binary64 (10 ^ 309) = PosInf"
  by (rule binary64_overflow) simp

lemma binary64_of_int_1e309: "float_of_int binary64_arithmetic (10 ^ 309) = None"
  using binary64_1e309 by (simp add: binary64_arithmetic_def del: power_numeral)

section \<open>The claims\<close>

text \<open>
  C1. For every valid input (days at least 1, miles and receipts not negative), in
  every arithmetic and so in that of a run, the function takes the branch of the first
  rule that matches, the rules tested in the order LongHighReceipts (5 to 12 days and a
  quotient of receipts by days of at least 100), ShortLowActivity (at most 6 days and a
  quotient below 100), MidHighMileage (at most 9 days and at least 400 miles), and the
  Default branch when none matches; it evaluates that branch's formula (the Default
  branch with the coefficients of ShortLowActivity) and returns it rounded. The
  quotient is the one the function computes, a float. At the boundary, 5 days and
  receipts of 500, the quotient of the machine is exactly 100, the first rule matches
  and the branch is LongHighReceipts, whatever the miles.
\<close>

theorem calculate_reimbursement_first_match:
  "Finite 1 \<le> d \<Longrightarrow> Finite 0 \<le> m \<Longrightarrow> Finite 0 \<le> r \<Longrightarrow>
   calculate_reimbursement_body_in A d m r =
     Inr (first_rule (spec_rules_in A) d m r,
          spec_formula_in A (first_rule (spec_rules_in A) d m r) d m r) \<and>
   calculate_reimbursement_in A d m r =
     Inr (float_round A (spec_formula_in A (first_rule (spec_rules_in A) d m r) d m r) 2) \<and>
   float_quot binary64_arithmetic (Finite 500) (Finite 5) = Finite 100 \<and>
   first_rule (spec_rules_in binary64_arithmetic) (Finite 5) m (Finite 500) = LongHighReceipts \<and>
   calculate_reimbursement_body_in binary64_arithmetic (Finite 5) m (Finite 500) =
     Inr (LongHighReceipts,
          linear_in binary64_arithmetic 87.111841 0.673030 0.285504 (Finite 5) m (Finite 500))"
proof -
  assume "Finite 1 \<le> d"
  then have "d \<noteq> Finite 0" using ge_one_nonneg by blast
  then have body: "calculate_reimbursement_body_in A d m r =
     Inr (first_rule (spec_rules_in A) d m r,
          spec_formula_in A (first_rule (spec_rules_in A) d m r) d m r)"
    by (rule body_in_first_rule)
  then have result: "calculate_reimbursement_in A d m r =
     Inr (float_round A (spec_formula_in A (first_rule (spec_rules_in A) d m r) d m r) 2)"
    by (simp add: calculate_reimbursement_in_def)
  have quot: "float_quot binary64_arithmetic (Finite 500) (Finite 5) = Finite 100"
    using binary64_small_ints(4) by (simp add: binary64_ops)
  then have rule: "first_rule (spec_rules_in binary64_arithmetic) (Finite 5) m (Finite 500) =
      LongHighReceipts"
    by (simp add: spec_rules_in_def)
  have "calculate_reimbursement_body_in binary64_arithmetic (Finite 5) m (Finite 500) =
      Inr (first_rule (spec_rules_in binary64_arithmetic) (Finite 5) m (Finite 500),
           spec_formula_in binary64_arithmetic
             (first_rule (spec_rules_in binary64_arithmetic) (Finite 5) m (Finite 500))
             (Finite 5) m (Finite 500))"
    by (rule body_in_first_rule) simp
  then have boundary: "calculate_reimbursement_body_in binary64_arithmetic (Finite 5) m (Finite 500) =
      Inr (LongHighReceipts,
           linear_in binary64_arithmetic 87.111841 0.673030 0.285504 (Finite 5) m (Finite 500))"
    unfolding rule by (simp add: spec_formula_in_def)
  from body result quot rule boundary show ?thesis by blast
qed

text \<open>
  In the arithmetic of the machine: 2 days, 258 miles and receipts of 800 match no rule
  (400 a day, but fewer than 5 days and fewer than 400 miles), the Default formula
  gives a float just above 510.285, and the function returns 510.29; at 5 days, 500
  miles and receipts of 500 the first and the third rule both match, the first wins,
  and the function returns 914.83.
\<close>

theorem calculate_reimbursement_first_match_witness:
  "Finite 1 \<le> Finite 2 \<and> Finite 0 \<le> Finite 258 \<and> Finite 0 \<le> Finite 800 \<and>
   first_rule (spec_rules_in binary64_arithmetic) (Finite 2) (Finite 258) (Finite 800) = Default \<and>
   spec_formula_in binary64_arithmetic Default (Finite 2) (Finite 258) (Finite 800) =
     Finite (8977028655674819 / 2 ^ 44) \<and>
   calculate_reimbursement_in binary64_arithmetic (Finite 2) (Finite 258) (Finite 800) =
     Inr (binary64 510.29) \<and>
   map (\<lambda>(rule, b). rule (Finite 5) (Finite 500) (Finite 500)) (spec_rules_in binary64_arithmetic) =
     [True, False, True] \<and>
   first_rule (spec_rules_in binary64_arithmetic) (Finite 5) (Finite 500) (Finite 500) =
     LongHighReceipts \<and>
   calculate_reimbursement_in binary64_arithmetic (Finite 5) (Finite 500) (Finite 500) =
     Inr (binary64 914.83)"
proof -
  have valid: "Finite 1 \<le> Finite 2" "Finite 0 \<le> Finite 258" "Finite 0 \<le> Finite 800"
    by simp_all
  note t = calculate_reimbursement_first_match [OF valid, of binary64_arithmetic]
  from t have "Inr (first_rule (spec_rules_in binary64_arithmetic) (Finite 2) (Finite 258) (Finite 800),
          spec_formula_in binary64_arithmetic
            (first_rule (spec_rules_in binary64_arithmetic) (Finite 2) (Finite 258) (Finite 800))
            (Finite 2) (Finite 258) (Finite 800)) =
      calculate_reimbursement_body_in binary64_arithmetic (Finite 2) (Finite 258) (Finite 800)"
    by simp
  also note machine_2_258_800(3)
  finally have ab:
    "first_rule (spec_rules_in binary64_arithmetic) (Finite 2) (Finite 258) (Finite 800) = Default \<and>
     spec_formula_in binary64_arithmetic
       (first_rule (spec_rules_in binary64_arithmetic) (Finite 2) (Finite 258) (Finite 800))
       (Finite 2) (Finite 258) (Finite 800) = Finite (8977028655674819 / 2 ^ 44)"
    by (blast dest: Inr_inject)
  then have a: "first_rule (spec_rules_in binary64_arithmetic) (Finite 2) (Finite 258) (Finite 800) =
      Default"
    by (rule conjunct1)
  from ab have b: "spec_formula_in binary64_arithmetic Default (Finite 2) (Finite 258) (Finite 800) =
      Finite (8977028655674819 / 2 ^ 44)"
    unfolding a by (rule conjunct2)
  have valid': "Finite 1 \<le> Finite 5" "Finite 0 \<le> Finite 500" "Finite 0 \<le> Finite 500"
    by simp_all
  note t' = calculate_reimbursement_first_match [OF valid', of binary64_arithmetic]
  from t' have quot: "float_quot binary64_arithmetic (Finite 500) (Finite 5) = Finite 100"
    and e: "first_rule (spec_rules_in binary64_arithmetic) (Finite 5) (Finite 500) (Finite 500) =
      LongHighReceipts"
    by blast+
  have d: "map (\<lambda>(rule, b). rule (Finite 5) (Finite 500) (Finite 500))
      (spec_rules_in binary64_arithmetic) = [True, False, True]"
    using quot by (simp add: spec_rules_in_def)
  from valid a b d e machine_2_258_800(4) machine_5_500_500(4) show ?thesis
    by blast
qed

text \<open>
  C2. On 8 days, 450 miles and receipts of 300 the receipts are 37.5 a day; the first
  rule and the second fail, the third matches; the branch is MidHighMileage, the
  formula gives 955.490808 and the function returns 955.49.
\<close>

theorem mid_high_mileage_scenario:
  "py_truediv (Finite 300) (Finite 8) = Inr (Finite 37.5) \<and>
   map (\<lambda>(rule, b). rule 8 450 300) spec_rules = [False, False, True] \<and>
   calculate_reimbursement_body (Finite 8) (Finite 450) (Finite 300) =
     Inr (MidHighMileage, Finite 955.490808) \<and>
   calculate_reimbursement (Finite 8) (Finite 450) (Finite 300) = Inr (Finite 955.49)"
  by (simp add: calculate_reimbursement_def calculate_reimbursement_body_def py_truediv_def
      spec_rules_def eval_round)

text \<open>
  C4, as the code has it. With an argument count other than 3 (\<open>argv\<close> of a length
  other than 4) the run exits with code 1 and the usage message on stderr. With three
  arguments of which one does not parse it exits with code 1 and the format message.
  With three arguments that parse and days below 1, or miles or receipts below 0, it
  exits with code 1 and the range message, and has not called
  \<^verbatim>\<open>calculate_reimbursement\<close>. Otherwise it calls the function once. When the days are
  an integer too large for a float, the call raises \<^verbatim>\<open>OverflowError\<close>, which nothing
  catches. When they convert, the run exits with code 0 and prints the result on
  stdout, with exactly two decimal places when the result is finite and not otherwise:
  an infinity prints as \<^verbatim>\<open>inf\<close>.
\<close>

theorem main_exit_codes:
  "(length argv \<noteq> 4 \<longrightarrow>
      main_in A py_int py_float argv = \<lparr>ending = Exited 1 [] usage_message, invoked = []\<rparr>) \<and>
   (length argv = 4 \<and>
    (py_int (argv ! 1) = None \<or> py_float (argv ! 2) = None \<or> py_float (argv ! 3) = None) \<longrightarrow>
      main_in A py_int py_float argv = \<lparr>ending = Exited 1 [] format_message, invoked = []\<rparr>) \<and>
   (length argv = 4 \<and> py_int (argv ! 1) = Some days \<and> py_float (argv ! 2) = Some miles \<and>
    py_float (argv ! 3) = Some receipts \<and>
    (days < 1 \<or> miles < Finite 0 \<or> receipts < Finite 0) \<longrightarrow>
      main_in A py_int py_float argv = \<lparr>ending = Exited 1 [] range_message, invoked = []\<rparr>) \<and>
   (length argv = 4 \<and> py_int (argv ! 1) = Some days \<and> py_float (argv ! 2) = Some miles \<and>
    py_float (argv ! 3) = Some receipts \<and>
    \<not> (days < 1 \<or> miles < Finite 0 \<or> receipts < Finite 0) \<longrightarrow>
      invoked (main_in A py_int py_float argv) = [(Finite (of_int days), miles, receipts)] \<and>
      (float_of_int A days = None \<longrightarrow>
         ending (main_in A py_int py_float argv) = Uncaught OverflowError) \<and>
      (converts_positive A \<longrightarrow>
         (\<forall>trip_duration_days. float_of_int A days = Some trip_duration_days \<longrightarrow>
            (\<exists>result. calculate_reimbursement_in A trip_duration_days miles receipts = Inr result \<and>
               ending (main_in A py_int py_float argv) =
                 Exited 0 (format_2f result @ newline) [] \<and>
               two_decimal_places (format_2f result) = is_finite result))))"
proof (intro conjI impI allI)
  assume "length argv \<noteq> 4"
  then show "main_in A py_int py_float argv = \<lparr>ending = Exited 1 [] usage_message, invoked = []\<rparr>"
    by (simp add: main_in_def)
next
  assume "length argv = 4 \<and>
    (py_int (argv ! 1) = None \<or> py_float (argv ! 2) = None \<or> py_float (argv ! 3) = None)"
  then show "main_in A py_int py_float argv = \<lparr>ending = Exited 1 [] format_message, invoked = []\<rparr>"
    by (auto simp add: main_in_def split: option.splits)
next
  assume "length argv = 4 \<and> py_int (argv ! 1) = Some days \<and> py_float (argv ! 2) = Some miles \<and>
    py_float (argv ! 3) = Some receipts \<and>
    (days < 1 \<or> miles < Finite 0 \<or> receipts < Finite 0)"
  then show "main_in A py_int py_float argv = \<lparr>ending = Exited 1 [] range_message, invoked = []\<rparr>"
    by (auto simp add: main_in_def)
next
  assume a: "length argv = 4 \<and> py_int (argv ! 1) = Some days \<and> py_float (argv ! 2) = Some miles \<and>
    py_float (argv ! 3) = Some receipts \<and>
    \<not> (days < 1 \<or> miles < Finite 0 \<or> receipts < Finite 0)"
  then show "invoked (main_in A py_int py_float argv) = [(Finite (of_int days), miles, receipts)]"
    by (simp add: main_in_def split: sum.splits py_error.splits)
next
  assume a: "length argv = 4 \<and> py_int (argv ! 1) = Some days \<and> py_float (argv ! 2) = Some miles \<and>
    py_float (argv ! 3) = Some receipts \<and>
    \<not> (days < 1 \<or> miles < Finite 0 \<or> receipts < Finite 0)"
  assume "float_of_int A days = None"
  then have "calculate_reimbursement_of_int A days miles receipts = Inl OverflowError"
    by (simp add: calculate_reimbursement_of_int_def)
  with a show "ending (main_in A py_int py_float argv) = Uncaught OverflowError"
    by (simp add: main_in_def)
next
  fix trip_duration_days
  assume a: "length argv = 4 \<and> py_int (argv ! 1) = Some days \<and> py_float (argv ! 2) = Some miles \<and>
    py_float (argv ! 3) = Some receipts \<and>
    \<not> (days < 1 \<or> miles < Finite 0 \<or> receipts < Finite 0)"
  assume pos: "converts_positive A" and conv: "float_of_int A days = Some trip_duration_days"
  from a have "1 \<le> days" by simp
  with pos conv have "Finite 1 \<le> trip_duration_days"
    unfolding converts_positive_def by blast
  then have "trip_duration_days \<noteq> Finite 0" using ge_one_nonneg by blast
  from calculate_reimbursement_in_total [OF this] obtain result where
    res: "calculate_reimbursement_in A trip_duration_days miles receipts = Inr result"
    by blast
  with conv have "calculate_reimbursement_of_int A days miles receipts = Inr result"
    by (simp add: calculate_reimbursement_of_int_def)
  with a have "ending (main_in A py_int py_float argv) = Exited 0 (format_2f result @ newline) []"
    by (simp add: main_in_def)
  with res two_decimal_places_iff_finite [of result]
  show "\<exists>result. calculate_reimbursement_in A trip_duration_days miles receipts = Inr result \<and>
      ending (main_in A py_int py_float argv) = Exited 0 (format_2f result @ newline) [] \<and>
      two_decimal_places (format_2f result) = is_finite result"
    by blast
qed

text \<open>
  Seven command lines in the arithmetic of the machine: two arguments; an argument
  that is not a number; days 0; miles -5; the run on 8, 450 and 300, which prints
  \<^verbatim>\<open>955.49\<close>; the run on days \<open>10 ^ 307\<close>, written as 1 and 307 zeros, which prints
  \<^verbatim>\<open>inf\<close>; and the run on days \<open>10 ^ 309\<close>, which ends in \<^verbatim>\<open>OverflowError\<close>.
\<close>

theorem main_exit_codes_witness:
  "main_in binary64_arithmetic sample_int sample_float [''calculate_reimbursement.py'', ''8'', ''450''] =
     \<lparr>ending = Exited 1 [] usage_message, invoked = []\<rparr> \<and>
   main_in binary64_arithmetic sample_int sample_float
       [''calculate_reimbursement.py'', ''8'', ''45x'', ''300''] =
     \<lparr>ending = Exited 1 [] format_message, invoked = []\<rparr> \<and>
   main_in binary64_arithmetic sample_int sample_float
       [''calculate_reimbursement.py'', ''0'', ''10'', ''10''] =
     \<lparr>ending = Exited 1 [] range_message, invoked = []\<rparr> \<and>
   main_in binary64_arithmetic sample_int sample_float
       [''calculate_reimbursement.py'', ''3'', ''-5'', ''10''] =
     \<lparr>ending = Exited 1 [] range_message, invoked = []\<rparr> \<and>
   main_in binary64_arithmetic sample_int sample_float
       [''calculate_reimbursement.py'', ''8'', ''450'', ''300''] =
     \<lparr>ending = Exited 0 (''955.49'' @ newline) [],
      invoked = [(Finite 8, Finite 450, Finite 300)]\<rparr> \<and>
   two_decimal_places ''955.49'' \<and>
   main_in binary64_arithmetic sample_int sample_float
       [''calculate_reimbursement.py'', CHR ''1'' # replicate 307 CHR ''0'', ''0'', ''0''] =
     \<lparr>ending = Exited 0 (''inf'' @ newline) [],
      invoked = [(Finite (10 ^ 307), Finite 0, Finite 0)]\<rparr> \<and>
   main_in binary64_arithmetic sample_int sample_float
       [''calculate_reimbursement.py'', CHR ''1'' # replicate 309 CHR ''0'', ''0'', ''0''] =
     \<lparr>ending = Uncaught OverflowError,
      invoked = [(Finite (10 ^ 309), Finite 0, Finite 0)]\<rparr>"
proof -
  have record_eq: "r = \<lparr>ending = e, invoked = i\<rparr>" if "ending r = e" "invoked r = i" for r :: run and e i
    using that by (cases r) simp
  have ok: "main_in binary64_arithmetic sample_int sample_float
       [''calculate_reimbursement.py'', ''8'', ''450'', ''300''] =
     \<lparr>ending = Exited 0 (''955.49'' @ newline) [],
      invoked = [(Finite 8, Finite 450, Finite 300)]\<rparr> \<and>
   two_decimal_places ''955.49''"
  proof -
    have "invoked (main_in binary64_arithmetic sample_int sample_float
          [''calculate_reimbursement.py'', ''8'', ''450'', ''300'']) =
        [(Finite 8, Finite 450, Finite 300)] \<and>
      (\<exists>result. calculate_reimbursement_in binary64_arithmetic (Finite 8) (Finite 450) (Finite 300) =
          Inr result \<and>
        ending (main_in binary64_arithmetic sample_int sample_float
          [''calculate_reimbursement.py'', ''8'', ''450'', ''300'']) =
          Exited 0 (format_2f result @ newline) [] \<and>
        two_decimal_places (format_2f result) = is_finite result)"
      using main_exit_codes [where argv = "[''calculate_reimbursement.py'', ''8'', ''450'', ''300'']"
          and A = binary64_arithmetic and py_int = sample_int and py_float = sample_float
          and days = 8 and miles = "Finite 450" and receipts = "Finite 300"]
        binary64_converts_positive binary64_of_int_8
      by (simp add: eval_parse del: sum.inject)
    then obtain result where
      inv: "invoked (main_in binary64_arithmetic sample_int sample_float
          [''calculate_reimbursement.py'', ''8'', ''450'', ''300'']) =
        [(Finite 8, Finite 450, Finite 300)]" and
      res: "calculate_reimbursement_in binary64_arithmetic (Finite 8) (Finite 450) (Finite 300) =
          Inr result" and
      en: "ending (main_in binary64_arithmetic sample_int sample_float
          [''calculate_reimbursement.py'', ''8'', ''450'', ''300'']) =
          Exited 0 (format_2f result @ newline) []" and
      two: "two_decimal_places (format_2f result) = is_finite result"
      by blast
    from res have eq: "result = binary64 955.49" unfolding machine_8_450_300(4) by simp
    have fin: "is_finite (binary64 955.49)"
      using binary64_normal [of 43 "955.49"] by (simp add: eval_round)
    from en have "ending (main_in binary64_arithmetic sample_int sample_float
          [''calculate_reimbursement.py'', ''8'', ''450'', ''300'']) =
          Exited 0 (''955.49'' @ newline) []"
      unfolding eq machine_8_450_300(5) .
    with inv have "main_in binary64_arithmetic sample_int sample_float
       [''calculate_reimbursement.py'', ''8'', ''450'', ''300''] =
     \<lparr>ending = Exited 0 (''955.49'' @ newline) [],
      invoked = [(Finite 8, Finite 450, Finite 300)]\<rparr>"
      by (intro record_eq)
    moreover from two fin have "two_decimal_places ''955.49''"
      unfolding eq machine_8_450_300(5) by simp
    ultimately show ?thesis by blast
  qed
  have overflow: "main_in binary64_arithmetic sample_int sample_float
       [''calculate_reimbursement.py'', CHR ''1'' # replicate 307 CHR ''0'', ''0'', ''0''] =
     \<lparr>ending = Exited 0 (''inf'' @ newline) [],
      invoked = [(Finite (10 ^ 307), Finite 0, Finite 0)]\<rparr>"
  proof -
    from binary64_1e307 obtain y where y: "binary64 (10 ^ 307) = Finite y" "2 ^ 1019 \<le> y"
      by blast
    then have conv: "float_of_int binary64_arithmetic (10 ^ 307) = Some (Finite y)"
      by (simp add: binary64_arithmetic_def del: power_numeral)
    have inf: "calculate_reimbursement_in binary64_arithmetic (Finite y) (Finite 0) (Finite 0) =
        Inr PosInf"
      using y(2) by (rule long_trip_overflow) simp_all
    have "invoked (main_in binary64_arithmetic sample_int sample_float
          [''calculate_reimbursement.py'', CHR ''1'' # replicate 307 CHR ''0'', ''0'', ''0'']) =
        [(Finite (10 ^ 307), Finite 0, Finite 0)] \<and>
      (\<exists>result. calculate_reimbursement_in binary64_arithmetic (Finite y) (Finite 0) (Finite 0) =
          Inr result \<and>
        ending (main_in binary64_arithmetic sample_int sample_float
          [''calculate_reimbursement.py'', CHR ''1'' # replicate 307 CHR ''0'', ''0'', ''0'']) =
          Exited 0 (format_2f result @ newline) [] \<and>
        two_decimal_places (format_2f result) = is_finite result)"
      using main_exit_codes [where argv = "[''calculate_reimbursement.py'',
            CHR ''1'' # replicate 307 CHR ''0'', ''0'', ''0'']"
          and A = binary64_arithmetic and py_int = sample_int and py_float = sample_float
          and days = "10 ^ 307" and miles = "Finite 0" and receipts = "Finite 0"]
        binary64_converts_positive conv one_le_power [of "10 :: int" 307]
      by (simp add: sample_int_power_of_ten sample_int_zero sample_float_def not_less
          del: sum.inject power_numeral)
    then show ?thesis
      unfolding inf by (intro record_eq) auto
  qed
  have error: "main_in binary64_arithmetic sample_int sample_float
       [''calculate_reimbursement.py'', CHR ''1'' # replicate 309 CHR ''0'', ''0'', ''0''] =
     \<lparr>ending = Uncaught OverflowError,
      invoked = [(Finite (10 ^ 309), Finite 0, Finite 0)]\<rparr>"
  proof -
    have "invoked (main_in binary64_arithmetic sample_int sample_float
          [''calculate_reimbursement.py'', CHR ''1'' # replicate 309 CHR ''0'', ''0'', ''0'']) =
        [(Finite (10 ^ 309), Finite 0, Finite 0)] \<and>
      ending (main_in binary64_arithmetic sample_int sample_float
          [''calculate_reimbursement.py'', CHR ''1'' # replicate 309 CHR ''0'', ''0'', ''0'']) =
        Uncaught OverflowError"
      using main_exit_codes [where argv = "[''calculate_reimbursement.py'',
            CHR ''1'' # replicate 309 CHR ''0'', ''0'', ''0'']"
          and A = binary64_arithmetic and py_int = sample_int and py_float = sample_float
          and days = "10 ^ 309" and miles = "Finite 0" and receipts = "Finite 0"]
        binary64_of_int_1e309 one_le_power [of "10 :: int" 309]
      by (simp add: sample_int_power_of_ten sample_int_zero sample_float_def not_less
          del: sum.inject power_numeral)
    then show ?thesis by (intro record_eq) auto
  qed
  show ?thesis
    using main_exit_codes [where argv = "[''calculate_reimbursement.py'', ''8'', ''450'']"
          and A = binary64_arithmetic and py_int = sample_int and py_float = sample_float]
      main_exit_codes [where argv = "[''calculate_reimbursement.py'', ''8'', ''45x'', ''300'']"
          and A = binary64_arithmetic and py_int = sample_int and py_float = sample_float]
      main_exit_codes [where argv = "[''calculate_reimbursement.py'', ''0'', ''10'', ''10'']"
          and A = binary64_arithmetic and py_int = sample_int and py_float = sample_float
          and days = 0 and miles = "Finite 10" and receipts = "Finite 10"]
      main_exit_codes [where argv = "[''calculate_reimbursement.py'', ''3'', ''-5'', ''10'']"
          and A = binary64_arithmetic and py_int = sample_int and py_float = sample_float
          and days = 3 and miles = "Finite (- 5)" and receipts = "Finite 10"]
      ok overflow error
    by (simp add: eval_parse del: power_numeral)
qed

text \<open>
  The claim as the specification states it, that every successful run prints two
  decimal places, fails on the command line \<^verbatim>\<open>1 inf 0\<close>: \<^verbatim>\<open>float("inf")\<close> parses, the
  range check accepts it (\<^verbatim>\<open>inf < 0\<close> is false), the ShortLowActivity formula gives
  \<^verbatim>\<open>inf\<close>, which rounds to itself, and the run exits with code 0 having printed
  \<^verbatim>\<open>inf\<close>.
\<close>

theorem infinite_miles_print_inf:
  "main sample_int sample_float [''calculate_reimbursement.py'', ''1'', ''inf'', ''0''] =
     \<lparr>ending = Exited 0 (''inf'' @ newline) [], invoked = [(Finite 1, PosInf, Finite 0)]\<rparr> \<and>
   calculate_reimbursement_body (Finite 1) PosInf (Finite 0) = Inr (ShortLowActivity, PosInf) \<and>
   \<not> two_decimal_places ''inf''"
  by (simp add: main_def eval_parse calculate_reimbursement_def calculate_reimbursement_body_def
      py_truediv_def two_decimal_places_def)

text \<open>
  C5, as the code has it. For every valid input (days at least 1, miles and receipts
  not negative), in every arithmetic that keeps products and sums of non-negative
  floats non-negative, as that of a run does, the function returns a float that is not
  negative and not NaN: a non-negative real number, or the positive infinity.
\<close>

theorem calculate_reimbursement_nonneg:
  assumes "keeps_nonneg A" "Finite 1 \<le> d" "Finite 0 \<le> m" "Finite 0 \<le> r"
  shows "\<exists>v. calculate_reimbursement_in A d m r = Inr v \<and> Finite 0 \<le> v"
proof -
  from body_in_nonneg [OF assms] obtain b v where
    bv: "calculate_reimbursement_body_in A d m r = Inr (b, v)" "Finite 0 \<le> v"
    by blast
  from assms(1) have "Finite 0 \<le> float_round A v 2"
    using bv(2) unfolding keeps_nonneg_def by blast
  with bv(1) show ?thesis by (simp add: calculate_reimbursement_in_def)
qed

theorem calculate_reimbursement_nonneg_witness:
  "keeps_nonneg binary64_arithmetic \<and>
   Finite 1 \<le> Finite 3 \<and> Finite 0 \<le> Finite 100 \<and> Finite 0 \<le> Finite 50 \<and>
   calculate_reimbursement_in binary64_arithmetic (Finite 3) (Finite 100) (Finite 50) =
     Inr (binary64 341.49) \<and>
   Finite 0 \<le> binary64 341.49"
proof -
  have "\<exists>v. calculate_reimbursement_in binary64_arithmetic (Finite 3) (Finite 100) (Finite 50) =
      Inr v \<and> Finite 0 \<le> v"
    using binary64_keeps_nonneg by (rule calculate_reimbursement_nonneg) simp_all
  then obtain v where
    v: "calculate_reimbursement_in binary64_arithmetic (Finite 3) (Finite 100) (Finite 50) = Inr v"
      "Finite 0 \<le> v"
    by blast
  note m = machine_3_100_50(4)
  from v(1) have "v = binary64 341.49" unfolding m by simp
  with v(2) have "Finite 0 \<le> binary64 341.49" by simp
  with m binary64_keeps_nonneg show ?thesis by simp
qed

text \<open>
  The claim as the specification states it, that the result is a real number, fails
  on \<open>10 ^ 307\<close> days with no miles and no receipts, a valid input: the product
  \<^verbatim>\<open>94.201797 * trip_duration_days\<close> is beyond the largest float, and the function
  returns the positive infinity.
\<close>

theorem overflow_is_not_a_real_number:
  "Finite 1 \<le> binary64 (10 ^ 307) \<and> Finite 0 \<le> Finite 0 \<and>
   calculate_reimbursement_in binary64_arithmetic (binary64 (10 ^ 307)) (Finite 0) (Finite 0) =
     Inr PosInf \<and>
   \<not> is_finite PosInf"
proof -
  from binary64_1e307 obtain y where y: "binary64 (10 ^ 307) = Finite y" "2 ^ 1019 \<le> y"
    by blast
  have "(1::real) \<le> 2 ^ 1019" by simp
  with y(2) have "1 \<le> y" by linarith
  moreover have "calculate_reimbursement_in binary64_arithmetic (Finite y) (Finite 0) (Finite 0) =
      Inr PosInf"
    using y(2) by (rule long_trip_overflow) simp_all
  ultimately show ?thesis unfolding y(1) by simp
qed

text \<open>
  C7. For every record with days at least 1, \<^verbatim>\<open>classify_trip\<close> returns the cluster of
  the branch the calculator takes on the record's days, miles and receipts: 0 exactly
  when the branch is LongHighReceipts, 1 exactly when it is ShortLowActivity, 2 exactly
  when it is MidHighMileage, and -1 exactly when it is the Default branch.
\<close>

theorem classify_trip_matches_calculator:
  "Finite 1 \<le> trip_duration_days (input e) \<Longrightarrow>
   \<exists>b v. calculate_reimbursement_body (trip_duration_days (input e)) (miles_traveled (input e))
            (total_receipts_amount (input e)) = Inr (b, v) \<and>
         classify_trip e = Inr (cluster_of b) \<and>
         (classify_trip e = Inr 0) = (b = LongHighReceipts) \<and>
         (classify_trip e = Inr 1) = (b = ShortLowActivity) \<and>
         (classify_trip e = Inr 2) = (b = MidHighMileage) \<and>
         (classify_trip e = Inr (- 1)) = (b = Default)"
proof -
  assume "Finite 1 \<le> trip_duration_days (input e)"
  then have "trip_duration_days (input e) \<noteq> Finite 0"
    using ge_one_nonneg by blast
  then show ?thesis
    by (simp add: calculate_reimbursement_body_def classify_trip_def py_truediv_def Let_def)
qed

theorem classify_trip_matches_calculator_witness:
  "classify_trip \<lparr>input = \<lparr>trip_duration_days = Finite 8, miles_traveled = Finite 450,
       total_receipts_amount = Finite 300\<rparr>, expected_output = Finite 955.49\<rparr> = Inr 2 \<and>
   calculate_reimbursement_body (Finite 8) (Finite 450) (Finite 300) =
     Inr (MidHighMileage, Finite 955.490808) \<and>
   classify_trip \<lparr>input = \<lparr>trip_duration_days = Finite 14, miles_traveled = Finite 1000,
       total_receipts_amount = Finite 2000\<rparr>, expected_output = Finite 2000\<rparr> = Inr (- 1) \<and>
   calculate_reimbursement_body (Finite 14) (Finite 1000) (Finite 2000) =
     Inr (Default, Finite 2287.612158)"
  using classify_trip_matches_calculator [of "\<lparr>input = \<lparr>trip_duration_days = Finite 8,
       miles_traveled = Finite 450, total_receipts_amount = Finite 300\<rparr>,
       expected_output = Finite 955.49\<rparr>"]
    classify_trip_matches_calculator [of "\<lparr>input = \<lparr>trip_duration_days = Finite 14,
       miles_traveled = Finite 1000, total_receipts_amount = Finite 2000\<rparr>,
       expected_output = Finite 2000\<rparr>"]
  by (simp add: calculate_reimbursement_body_def py_truediv_def classify_trip_def)

text \<open>
  C8. In every arithmetic, every trip of 13 days or more takes the \<^verbatim>\<open>else\<close> arm,
  whatever its miles and receipts are (in particular for the valid ones, non-negative),
  and is reimbursed with the coefficients of ShortLowActivity: the function returns
  \<open>94.201797 * days + 0.462207 * miles + 0.253290 * receipts\<close>, computed in the
  arithmetic and rounded.
\<close>

theorem long_trips_take_default:
  "Finite 13 \<le> d \<Longrightarrow>
   calculate_reimbursement_body_in A d m r =
     Inr (Default, linear_in A 94.201797 0.462207 0.253290 d m r) \<and>
   calculate_reimbursement_in A d m r =
     Inr (float_round A (linear_in A 94.201797 0.462207 0.253290 d m r) 2) \<and>
   spec_formula_in A Default d m r = spec_formula_in A ShortLowActivity d m r"
proof -
  assume "Finite 13 \<le> d"
  then have "d \<noteq> Finite 0 \<and> \<not> d \<le> Finite 12 \<and> \<not> d \<le> Finite 6 \<and> \<not> d \<le> Finite 9"
    by (cases d) simp_all
  then show ?thesis
    by (simp add: calculate_reimbursement_in_def calculate_reimbursement_body_in_def
        truediv_in_def spec_formula_in_def)
qed

text \<open>
  In the arithmetic of the machine, a trip of 45000 days with no miles and no receipts
  takes the Default branch and returns 4239080.87.
\<close>

theorem long_trips_take_default_witness:
  "Finite 13 \<le> Finite 45000 \<and>
   calculate_reimbursement_body_in binary64_arithmetic (Finite 45000) (Finite 0) (Finite 0) =
     Inr (Default, Finite (2275839210034299 / 2 ^ 29)) \<and>
   calculate_reimbursement_in binary64_arithmetic (Finite 45000) (Finite 0) (Finite 0) =
     Inr (binary64 4239080.87) \<and>
   format_2f (binary64 4239080.87) = ''4239080.87''"
proof -
  have valid: "Finite 13 \<le> Finite 45000" by simp
  note t = long_trips_take_default [OF valid, of binary64_arithmetic "Finite 0" "Finite 0"]
  from t have "calculate_reimbursement_body_in binary64_arithmetic (Finite 45000) (Finite 0) (Finite 0) =
      Inr (Default, linear_in binary64_arithmetic 94.201797 0.462207 0.253290
             (Finite 45000) (Finite 0) (Finite 0))"
    by blast
  then have "calculate_reimbursement_body_in binary64_arithmetic (Finite 45000) (Finite 0) (Finite 0) =
      Inr (Default, Finite (2275839210034299 / 2 ^ 29))"
    unfolding machine_45000_0_0(2) .
  with valid machine_45000_0_0(4,5) show ?thesis by blast
qed

text \<open>
  C9. The division of receipts by days comes before every branch test: with days 0
  the function raises \<^verbatim>\<open>ZeroDivisionError\<close> whatever the miles and receipts are. With
  days at least 1 the division has a value and the function does not raise. No run of
  the command line ends in an uncaught \<^verbatim>\<open>ZeroDivisionError\<close>, and every call of the
  function a run makes has days at least 1.
\<close>

theorem division_by_zero_unreachable:
  "calculate_reimbursement_body (Finite 0) m r = Inl ZeroDivisionError \<and>
   calculate_reimbursement (Finite 0) m r = Inl ZeroDivisionError \<and>
   (Finite 1 \<le> d \<longrightarrow> (\<exists>receipts_per_day. py_truediv r d = Inr receipts_per_day) \<and>
      calculate_reimbursement d m r \<noteq> Inl ZeroDivisionError) \<and>
   ending (main py_int py_float argv) \<noteq> Uncaught ZeroDivisionError \<and>
   list_all (\<lambda>(days, miles, receipts). Finite 1 \<le> days) (invoked (main py_int py_float argv))"
proof -
  have zero: "calculate_reimbursement_body (Finite 0) m r = Inl ZeroDivisionError"
    by (simp add: calculate_reimbursement_body_def py_truediv_def)
  then have zero': "calculate_reimbursement (Finite 0) m r = Inl ZeroDivisionError"
    by (simp add: calculate_reimbursement_def)
  have pos: "Finite 1 \<le> d \<longrightarrow> (\<exists>receipts_per_day. py_truediv r d = Inr receipts_per_day) \<and>
      calculate_reimbursement d m r \<noteq> Inl ZeroDivisionError"
  proof
    assume "Finite 1 \<le> d"
    then have nz: "d \<noteq> Finite 0" using ge_one_nonneg by blast
    with calculate_reimbursement_total [of d m r]
    show "(\<exists>receipts_per_day. py_truediv r d = Inr receipts_per_day) \<and>
      calculate_reimbursement d m r \<noteq> Inl ZeroDivisionError"
      by (auto simp add: py_truediv_def)
  qed
  have call: "calculate_reimbursement (Finite (of_int days)) miles receipts \<noteq> Inl e"
    if "\<not> days < 1" for days :: int and miles receipts e
  proof -
    from that have "Finite (of_int days) \<noteq> Finite 0" by simp
    from calculate_reimbursement_total [OF this, of miles receipts] show ?thesis by auto
  qed
  have run: "ending (main py_int py_float argv) \<noteq> Uncaught ZeroDivisionError \<and>
      list_all (\<lambda>(days, miles, receipts). Finite 1 \<le> days) (invoked (main py_int py_float argv))"
    by (auto simp add: main_def call split: option.splits sum.splits py_error.splits)
  from zero zero' pos run show ?thesis by blast
qed

theorem division_by_zero_unreachable_witness:
  "calculate_reimbursement_body (Finite 0) (Finite 450) (Finite 300) = Inl ZeroDivisionError \<and>
   calculate_reimbursement (Finite 0) (Finite 450) (Finite 300) = Inl ZeroDivisionError \<and>
   py_truediv (Finite 300) (Finite 8) = Inr (Finite 37.5) \<and>
   calculate_reimbursement (Finite 8) (Finite 450) (Finite 300) \<noteq> Inl ZeroDivisionError \<and>
   main sample_int sample_float [''calculate_reimbursement.py'', ''0'', ''450'', ''300''] =
     \<lparr>ending = Exited 1 [] range_message, invoked = []\<rparr>"
  using division_by_zero_unreachable [of "Finite 450" "Finite 300" "Finite 8"
      sample_int sample_float "[''calculate_reimbursement.py'', ''0'', ''450'', ''300'']"]
  by (simp add: py_truediv_def main_def eval_parse)

text \<open>
  C10. The function is not monotone in miles. With 7 days and no receipts, 399 miles
  take the Default branch and return 843.83, and 400 miles take the MidHighMileage
  branch and return 717.72: valid inputs with the same days and receipts, more miles,
  and a strictly smaller result.
\<close>

theorem not_monotone_in_miles:
  "calculate_reimbursement_body (Finite 7) (Finite 399) (Finite 0) =
     Inr (Default, Finite 843.833172) \<and>
   calculate_reimbursement_body (Finite 7) (Finite 400) (Finite 0) =
     Inr (MidHighMileage, Finite 717.720482) \<and>
   calculate_reimbursement (Finite 7) (Finite 399) (Finite 0) = Inr (Finite 843.83) \<and>
   calculate_reimbursement (Finite 7) (Finite 400) (Finite 0) = Inr (Finite 717.72) \<and>
   (\<exists>d r m1 m2 v1 v2. 1 \<le> d \<and> 0 \<le> r \<and> 0 \<le> m1 \<and> m1 < m2 \<and>
      calculate_reimbursement (Finite d) (Finite m1) (Finite r) = Inr (Finite v1) \<and>
      calculate_reimbursement (Finite d) (Finite m2) (Finite r) = Inr (Finite v2) \<and>
      v2 < v1)"
proof -
  have a: "calculate_reimbursement_body (Finite 7) (Finite 399) (Finite 0) =
      Inr (Default, Finite 843.833172)"
    by (simp add: calculate_reimbursement_body_def py_truediv_def)
  have b: "calculate_reimbursement_body (Finite 7) (Finite 400) (Finite 0) =
      Inr (MidHighMileage, Finite 717.720482)"
    by (simp add: calculate_reimbursement_body_def py_truediv_def)
  have c: "calculate_reimbursement (Finite 7) (Finite 399) (Finite 0) = Inr (Finite 843.83)"
    by (simp add: calculate_reimbursement_def a eval_round)
  have d: "calculate_reimbursement (Finite 7) (Finite 400) (Finite 0) = Inr (Finite 717.72)"
    by (simp add: calculate_reimbursement_def b eval_round)
  have "(1::real) \<le> 7 \<and> (0::real) \<le> 0 \<and> (0::real) \<le> 399 \<and> (399::real) < 400 \<and>
      calculate_reimbursement (Finite 7) (Finite 399) (Finite 0) = Inr (Finite 843.83) \<and>
      calculate_reimbursement (Finite 7) (Finite 400) (Finite 0) = Inr (Finite 717.72) \<and>
      (717.72::real) < 843.83"
    using c d by simp
  then have "\<exists>d r m1 m2 v1 v2. 1 \<le> d \<and> 0 \<le> r \<and> 0 \<le> m1 \<and> m1 < m2 \<and>
      calculate_reimbursement (Finite d) (Finite m1) (Finite r) = Inr (Finite v1) \<and>
      calculate_reimbursement (Finite d) (Finite m2) (Finite r) = Inr (Finite v2) \<and>
      v2 < v1"
    by blast
  with a b c d show ?thesis by blast
qed

end
